theory Spec2Isabelle
  imports Main "HOL-Library.AList"
begin

section \<open>Exceptions and responses of the ACME views\<close>

text \<open>
  The views of \<^verbatim>\<open>django_ca/acme/views.py\<close> signal failures by raising exceptions.
  Subclasses of \<^verbatim>\<open>AcmeException\<close> carry a problem type (\<^verbatim>\<open>typ\<close>, optional) and a
  message; \<^verbatim>\<open>AcmeBaseView.post\<close> converts them to the matching response. Every other
  exception (\<^verbatim>\<open>ValueError\<close>, \<^verbatim>\<open>DoesNotExist\<close>, ...) escapes \<^verbatim>\<open>post\<close> and is turned into
  the generic internal-error response by \<^verbatim>\<open>AcmeBaseView.dispatch\<close>.
\<close>

datatype exn =
    AcmeMalformed "string option" "string option"
  | AcmeUnauthorized "string option" "string option"
  | AcmeForbidden "string option" "string option"
  | AcmeBadCSR "string option" "string option"
  | ValueError string
  | AttributeError
  | DoesNotExist
  | MultipleObjectsReturned

text \<open>
  The payload of a successful response is kept abstract here (\<open>'a\<close>); the error responses
  are the classes of \<^verbatim>\<open>acme/responses.py\<close> that the views name.
\<close>

datatype 'a response =
    AcmeResponseUnsupportedMediaType
  | AcmeResponseMalformed "string option" "string option"
  | AcmeResponseMalformedPayload string
  | AcmeResponseNotFound string
  | AcmeResponseUnauthorized "string option" "string option"
  | AcmeResponseForbidden "string option" "string option"
  | AcmeResponseBadCSR "string option" "string option"
  | AcmeResponseBadNonce
  | AcmeResponseError string
  | AcmeResponseOk 'a

text \<open>
  Modelled from the spec: \<^verbatim>\<open>acme/errors.py\<close> is not part of the sources at hand. Each
  \<^verbatim>\<open>AcmeException\<close> subclass answers \<^verbatim>\<open>get_response()\<close> with the response of its own kind,
  built from the arguments of the exception. Exceptions that are not ACME exceptions have
  no response of their own.
\<close>

fun get_response :: "exn \<Rightarrow> 'a response option" where
  "get_response (AcmeMalformed typ msg) = Some (AcmeResponseMalformed typ msg)"
| "get_response (AcmeUnauthorized typ msg) = Some (AcmeResponseUnauthorized typ msg)"
| "get_response (AcmeForbidden typ msg) = Some (AcmeResponseForbidden typ msg)"
| "get_response (AcmeBadCSR typ msg) = Some (AcmeResponseBadCSR typ msg)"
| "get_response _ = None"

text \<open>
  The end of \<^verbatim>\<open>AcmeBaseView.post\<close>:
  \<^verbatim>\<open>try: return self.process_acme_request(slug=slug)
except AcmeException as e: return e.get_response()\<close>
\<close>

definition catch_acme :: "exn + 'a response \<Rightarrow> exn + 'a response" where
  "catch_acme r =
     (case r of
        Inr resp \<Rightarrow> Inr resp
      | Inl e \<Rightarrow> (case get_response e of Some resp \<Rightarrow> Inr resp | None \<Rightarrow> Inl e))"

text \<open>
  \<^verbatim>\<open>AcmeBaseView.dispatch\<close> catches every exception that is left and answers with the
  generic error document.
\<close>

definition dispatch :: "exn + 'a response \<Rightarrow> 'a response" where
  "dispatch r =
     (case r of
        Inr resp \<Rightarrow> resp
      | Inl e \<Rightarrow> AcmeResponseError ''Internal server error'')"

section \<open>Replay nonces (\<^verbatim>\<open>AcmeGetNonceViewMixin\<close>)\<close>

text \<open>
  The Django cache is a dictionary from keys to values; the nonce entries hold integers.
  \<^verbatim>\<open>cache.set(key, v)\<close> stores, \<^verbatim>\<open>cache.incr(key)\<close> raises \<^verbatim>\<open>ValueError\<close> when the key
  is not set and otherwise stores and returns the value plus one.
\<close>

type_synonym cache = "string \<rightharpoonup> int"

definition cache_set :: "cache \<Rightarrow> string \<Rightarrow> int \<Rightarrow> cache" where
  "cache_set c k v = c(k \<mapsto> v)"

definition cache_incr :: "cache \<Rightarrow> string \<Rightarrow> exn + (int \<times> cache)" where
  "cache_incr c k =
     (case c k of
        None \<Rightarrow> Inl (ValueError ''Key not found'')
      | Some v \<Rightarrow> Inr (v + 1, c(k \<mapsto> v + 1)))"

text \<open>\<^verbatim>\<open>cache_key = f"acme-nonce-{self.kwargs['serial']}-{nonce}"\<close>\<close>

definition cache_key :: "string \<Rightarrow> string \<Rightarrow> string" where
  "cache_key serial nonce = ''acme-nonce-'' @ serial @ ''-'' @ nonce"

text \<open>
  \<^verbatim>\<open>get_nonce\<close>: the value \<open>nonce\<close> is the base64url encoding of the 32 bytes drawn from
  \<^verbatim>\<open>secrets.token_bytes\<close>; the random source is an input of the model.
\<close>

definition get_nonce :: "string \<Rightarrow> string \<Rightarrow> cache \<Rightarrow> string \<times> cache" where
  "get_nonce serial nonce c = (nonce, cache_set c (cache_key serial nonce) 0)"

definition validate_nonce :: "string \<Rightarrow> string \<Rightarrow> cache \<Rightarrow> bool \<times> cache" where
  "validate_nonce serial nonce c =
     (case cache_incr c (cache_key serial nonce) of
        Inl _ \<Rightarrow> (False, c)
      | Inr (count, c') \<Rightarrow> if count > 1 then (False, c') else (True, c'))"

text \<open>
  A history of the nonce store: every request issues a nonce for the CA it addresses
  (\<^verbatim>\<open>dispatch\<close>), and authenticated requests consume one (\<^verbatim>\<open>post\<close>). Both events carry
  the serial of the CA and the nonce.
\<close>

datatype nonce_event = GetNonce string string | ValidateNonce string string

fun event_serial :: "nonce_event \<Rightarrow> string" where
  "event_serial (GetNonce s n) = s"
| "event_serial (ValidateNonce s n) = s"

fun nonce_step :: "cache \<Rightarrow> nonce_event \<Rightarrow> cache" where
  "nonce_step c (GetNonce s n) = snd (get_nonce s n c)"
| "nonce_step c (ValidateNonce s n) = snd (validate_nonce s n c)"

fun nonce_run :: "cache \<Rightarrow> nonce_event list \<Rightarrow> cache" where
  "nonce_run c [] = c"
| "nonce_run c (e # es) = nonce_run (nonce_step c e) es"

text \<open>Serials are sanitized by the URL converter: hexadecimal digits, never a dash.\<close>

definition serial_ok :: "string \<Rightarrow> bool" where
  "serial_ok s = (CHR ''-'' \<notin> set s)"

definition nonce_live :: "nonce_event list \<Rightarrow> string \<Rightarrow> string \<Rightarrow> bool" where
  "nonce_live tr s n \<longleftrightarrow>
     (\<exists>pre post. tr = pre @ GetNonce s n # post \<and> ValidateNonce s n \<notin> set post)"

section \<open>Contact validation (\<^verbatim>\<open>ContactValidationMixin\<close>)\<close>

text \<open>\<^verbatim>\<open>acme.messages.Registration.email_prefix\<close>\<close>

definition email_prefix :: string where
  "email_prefix = ''mailto:''"

definition startswith :: "string \<Rightarrow> string \<Rightarrow> bool" where
  "startswith s p \<longleftrightarrow> take (length p) s = p"

text \<open>
  \<^verbatim>\<open>s.split(sep, 1)\<close> for a one-character separator: one element when the separator does
  not occur, otherwise the text before its first occurrence and the text after it.
\<close>

definition py_split1 :: "char \<Rightarrow> string \<Rightarrow> string list" where
  "py_split1 sep s =
     (if sep \<in> set s
      then [takeWhile (\<lambda>c. c \<noteq> sep) s, tl (dropWhile (\<lambda>c. c \<noteq> sep) s)]
      else [s])"

text \<open>
  The body of the loop of \<^verbatim>\<open>validate_contacts\<close> for one contact. \<^verbatim>\<open>validate_email\<close> lives
  in \<^verbatim>\<open>utils.py\<close> and is a parameter: \<open>validate_email addr\<close> holds when the call returns
  without \<^verbatim>\<open>ValueError\<close>. The assignment \<^verbatim>\<open>_local, domain = addr.split("@", 1)\<close> unpacks
  exactly two values and raises \<^verbatim>\<open>ValueError\<close> otherwise.
\<close>

definition validate_contact :: "(string \<Rightarrow> bool) \<Rightarrow> string \<Rightarrow> exn + unit" where
  "validate_contact validate_email contact =
     (if startswith contact email_prefix then
        (let addr = drop (length email_prefix) contact in
         if startswith addr [CHR 0x22] then
           Inl (AcmeMalformed (Some ''invalidContact'')
                 (Some ''Quoted local part in email is not allowed.''))
         else if CHR '','' \<in> set addr then
           Inl (AcmeMalformed (Some ''invalidContact'')
                 (Some ''More than one addr-spec is not allowed.''))
         else
           (case py_split1 (CHR ''@'') addr of
              [localpart, domain] \<Rightarrow>
                if CHR ''?'' \<in> set domain then
                  Inl (AcmeMalformed (Some ''invalidContact'')
                        (Some (domain @ '': hfields are not allowed.'')))
                else if validate_email addr then Inr ()
                else
                  Inl (AcmeMalformed (Some ''invalidContact'')
                        (Some (domain @ '': Not a valid email address.'')))
            | _ \<Rightarrow> Inl (ValueError ''not enough values to unpack (expected 2, got 1)'')))
      else
        Inl (AcmeMalformed (Some ''unsupportedContact'')
              (Some (contact @ '': Unsupported address scheme.''))))"

text \<open>\<^verbatim>\<open>for contact in message.contact: ...\<close>; the first exception ends the loop.\<close>

fun validate_contacts :: "(string \<Rightarrow> bool) \<Rightarrow> string list \<Rightarrow> exn + unit" where
  "validate_contacts validate_email [] = Inr ()"
| "validate_contacts validate_email (contact # rest) =
     (case validate_contact validate_email contact of
        Inl e \<Rightarrow> Inl e
      | Inr _ \<Rightarrow> validate_contacts validate_email rest)"

section \<open>The database\<close>

text \<open>
  Modelled from the spec: \<^verbatim>\<open>models.py\<close> is not part of the sources at hand. The rows carry
  the fields that the views read and write; the status values are those of section 3 of
  the specification. A table is the list of its rows, a foreign key is the primary key of
  the row it points to.
\<close>

datatype account_status = AccountValid | AccountDeactivated

datatype order_status = Pending | Ready | Processing | Valid | Invalid

datatype auth_status = AuthPending | AuthValid | AuthInvalid | AuthDeactivated | AuthExpired

datatype challenge_status = ChallengePending | ChallengeProcessing | ChallengeValid | ChallengeInvalid

record certificate_authority =
  ca_pk :: nat
  ca_serial :: string
  ca_acme_requires_contact :: bool

record acme_account =
  acc_pk :: nat
  acc_ca :: nat
  acc_slug :: string
  acc_kid :: string
  acc_pem :: string
  acc_thumbprint :: string
  acc_contact :: string
  acc_status :: account_status

record acme_order =
  ord_pk :: nat
  ord_account :: nat
  ord_slug :: string
  ord_status :: order_status
  ord_not_before :: "int option"
  ord_not_after :: "int option"
  ord_expires :: int

record acme_authorization =
  auth_pk :: nat
  auth_order :: nat
  auth_slug :: string
  auth_type :: string
  auth_value :: string
  auth_status :: auth_status
  auth_expires :: int

record acme_challenge =
  chall_pk :: nat
  chall_auth :: nat
  chall_slug :: string
  chall_type :: string
  chall_status :: challenge_status

record acme_certificate =
  cert_pk :: nat
  cert_order :: nat
  cert_slug :: string
  cert_csr :: string
  cert_cert :: "string option"

text \<open>
  \<open>tasks\<close> is the queue of \<^verbatim>\<open>transaction.on_commit(lambda: run_task(...))\<close>: the name of the
  task and the primary key it is given.
\<close>

record db =
  cas :: "certificate_authority list"
  accounts :: "acme_account list"
  orders :: "acme_order list"
  authorizations :: "acme_authorization list"
  challenges :: "acme_challenge list"
  certificates :: "acme_certificate list"
  tasks :: "(string \<times> nat) list"

text \<open>
  \<^verbatim>\<open>QuerySet.get()\<close>: the single row of the query set; \<^verbatim>\<open>DoesNotExist\<close> when there is none,
  \<^verbatim>\<open>MultipleObjectsReturned\<close> when there are several.
\<close>

fun qs_get :: "'a list \<Rightarrow> exn + 'a" where
  "qs_get [] = Inl DoesNotExist"
| "qs_get [x] = Inr x"
| "qs_get (x # y # zs) = Inl MultipleObjectsReturned"

text \<open>\<^verbatim>\<open>queryset.filter(P).update(field=v)\<close>: every row that matches is rewritten in place.\<close>

definition qs_update :: "('a \<Rightarrow> bool) \<Rightarrow> ('a \<Rightarrow> 'a) \<Rightarrow> 'a list \<Rightarrow> 'a list" where
  "qs_update P f rows = map (\<lambda>r. if P r then f r else r) rows"

text \<open>\<^verbatim>\<open>instance.save()\<close> of an existing row: the row with its primary key is replaced.\<close>

definition qs_save :: "('a \<Rightarrow> nat) \<Rightarrow> 'a \<Rightarrow> 'a list \<Rightarrow> 'a list" where
  "qs_save pk x rows = map (\<lambda>r. if pk r = pk x then x else r) rows"

text \<open>The primary key of a new row.\<close>

definition next_pk :: "('a \<Rightarrow> nat) \<Rightarrow> 'a list \<Rightarrow> nat" where
  "next_pk pk rows = Suc (fold max (map pk rows) 0)"

text \<open>
  The lookups across foreign keys that the query sets use: \<^verbatim>\<open>order__account\<close> for an
  authorization or a certificate, \<^verbatim>\<open>auth__order__account\<close> for a challenge.
\<close>

definition order_account_is :: "db \<Rightarrow> nat \<Rightarrow> nat \<Rightarrow> bool" where
  "order_account_is d order_pk account_pk \<longleftrightarrow>
     list_ex (\<lambda>r. ord_pk r = order_pk \<and> ord_account r = account_pk) (orders d)"

definition auth_account_is :: "db \<Rightarrow> nat \<Rightarrow> nat \<Rightarrow> bool" where
  "auth_account_is d authz_pk account_pk \<longleftrightarrow>
     list_ex (\<lambda>a. auth_pk a = authz_pk \<and> order_account_is d (auth_order a) account_pk)
       (authorizations d)"

text \<open>
  The query set methods \<^verbatim>\<open>acme()\<close>, \<^verbatim>\<open>usable()\<close> and \<^verbatim>\<open>viewable()\<close> and the properties
  \<^verbatim>\<open>usable\<close> live in \<^verbatim>\<open>querysets.py\<close> and \<^verbatim>\<open>models.py\<close>; they are parameters of the
  views, as are the cryptographic operations of the JOSE library.
\<close>

record api =
  ca_usable :: "certificate_authority \<Rightarrow> bool"
  account_viewable :: "db \<Rightarrow> acme_account \<Rightarrow> bool"
  account_usable :: "db \<Rightarrow> acme_account \<Rightarrow> bool"
  order_viewable :: "db \<Rightarrow> acme_order \<Rightarrow> bool"
  auth_viewable :: "db \<Rightarrow> acme_authorization \<Rightarrow> bool"
  challenge_viewable :: "db \<Rightarrow> acme_challenge \<Rightarrow> bool"
  challenge_usable :: "db \<Rightarrow> acme_challenge \<Rightarrow> bool"
  certificate_viewable :: "db \<Rightarrow> acme_certificate \<Rightarrow> bool"
  get_challenges :: "db \<Rightarrow> acme_authorization \<Rightarrow> acme_challenge list \<times> db"
  cert_bundle :: "db \<Rightarrow> acme_certificate \<Rightarrow> string"

text \<open>
  \<open>jws_verify signature key\<close> is \<^verbatim>\<open>self.jws.verify(key)\<close>, \<open>None\<close> when the call raises;
  \<open>jwk_load pem\<close> is \<^verbatim>\<open>jose.JWK.load(pem)\<close>.
\<close>

record crypto =
  jws_verify :: "string \<Rightarrow> string \<Rightarrow> bool option"
  jwk_load :: "string \<Rightarrow> string"

section \<open>Request authentication (\<^verbatim>\<open>AcmeBaseView.post\<close>)\<close>

text \<open>
  The protected header of the JWS (\<^verbatim>\<open>self.jws.signature.combined\<close>). A key is the text of
  its PEM encoding; \<open>hdr_nonce\<close> is the nonce as \<^verbatim>\<open>jose.encode_b64jose\<close> returns it.
\<close>

record jws_header =
  hdr_jwk :: "string option"
  hdr_kid :: "string option"
  hdr_alg :: "string option"
  hdr_nonce :: string
  hdr_url :: string

record jws =
  jws_combined :: jws_header
  jws_signatures :: nat
  jws_payload :: string
  jws_signature :: string

text \<open>
  \<open>req_body\<close> is the result of \<^verbatim>\<open>acme.jws.JWS.json_loads(request.body)\<close>, \<open>None\<close> when it
  raises \<^verbatim>\<open>DeserializationError\<close> or \<^verbatim>\<open>TypeError\<close>; \<open>req_uri\<close> is
  \<^verbatim>\<open>request.build_absolute_uri()\<close>.
\<close>

record request =
  req_content_type :: string
  req_body :: "jws option"
  req_uri :: string

text \<open>Python truth of an optional string: \<^verbatim>\<open>None\<close> and the empty string are false.\<close>

fun truthy :: "string option \<Rightarrow> bool" where
  "truthy None = False"
| "truthy (Some s) = (s \<noteq> [])"

text \<open>What \<^verbatim>\<open>post\<close> has resolved when it calls \<^verbatim>\<open>process_acme_request\<close>.\<close>

record signer =
  sig_ca :: certificate_authority
  sig_jwk :: string
  sig_account :: "acme_account option"
  sig_jws :: jws

text \<open>
  \<^verbatim>\<open>post\<close> returns a response for every failure of its own; an exception that it does not
  catch is the left summand. The third component is the cache after the request.
\<close>

definition post ::
  "api \<Rightarrow> crypto \<Rightarrow> bool \<Rightarrow> (signer \<Rightarrow> db \<Rightarrow> (exn + 'a response) \<times> db) \<Rightarrow>
   db \<Rightarrow> request \<Rightarrow> string \<Rightarrow> cache \<Rightarrow> (exn + 'a response) \<times> db \<times> cache" where
  "post api cr requires_key process_acme_request d request serial c =
     (if req_content_type request \<noteq> ''application/jose+json'' then
        (Inr AcmeResponseUnsupportedMediaType, d, c)
      else
        (case req_body request of
           None \<Rightarrow> (Inr (AcmeResponseMalformed None (Some ''Could not parse JWS token.'')), d, c)
         | Some jws \<Rightarrow>
             (let combined = jws_combined jws in
              if hdr_jwk combined \<noteq> None \<and> truthy (hdr_kid combined) then
                (Inr (AcmeResponseMalformed None (Some ''jwk and kid are mutually exclusive.'')),
                 d, c)
              else
                (case qs_get (filter (\<lambda>ca. ca_usable api ca \<and> ca_serial ca = serial) (cas d)) of
                   Inl DoesNotExist \<Rightarrow>
                     (Inr (AcmeResponseNotFound ''The requested CA cannot be found.''), d, c)
                 | Inl e \<Rightarrow> (Inl e, d, c)
                 | Inr ca \<Rightarrow>
                     (let resolved =
                        (case hdr_jwk combined of
                           Some key \<Rightarrow>
                             if \<not> requires_key then
                               Inl (Inr (AcmeResponseMalformed None
                                           (Some ''Request requires a JWK key ID.'')))
                             else
                               Inr \<lparr>sig_ca = ca, sig_jwk = key, sig_account = None,
                                    sig_jws = jws\<rparr>
                         | None \<Rightarrow>
                             if truthy (hdr_kid combined) then
                               if requires_key then
                                 Inl (Inr (AcmeResponseMalformed None
                                             (Some ''Request requires a full JWK key.'')))
                               else
                                 (case qs_get (filter (\<lambda>a. account_viewable api d a \<and>
                                                 acc_ca a = ca_pk ca \<and>
                                                 Some (acc_kid a) = hdr_kid combined)
                                               (accounts d)) of
                                    Inl DoesNotExist \<Rightarrow>
                                      Inl (Inr (AcmeResponseUnauthorized None
                                                  (Some ''Account not found.'')))
                                  | Inl e \<Rightarrow> Inl (Inl e)
                                  | Inr account \<Rightarrow>
                                      if \<not> account_usable api d account then
                                        Inl (Inr (AcmeResponseUnauthorized None
                                                    (Some ''Account not usable.'')))
                                      else
                                        Inr \<lparr>sig_ca = ca,
                                             sig_jwk = jwk_load cr (acc_pem account),
                                             sig_account = Some account, sig_jws = jws\<rparr>)
                             else
                               Inl (Inr (AcmeResponseMalformed None
                                           (Some ''JWS contained neither key nor key ID.''))))
                      in
                      case resolved of
                        Inl r \<Rightarrow> (r, d, c)
                      | Inr sg \<Rightarrow>
                          if jws_signatures jws \<noteq> 1 then
                            (Inr (AcmeResponseMalformed None
                                    (Some ''Multiple JWS signatures encountered.'')), d, c)
                          else if hdr_alg combined = None then
                            (Inr (AcmeResponseMalformed None (Some ''No algorithm specified.'')),
                             d, c)
                          else if jws_verify cr (jws_signature jws) (sig_jwk sg) \<noteq> Some True then
                            (Inr (AcmeResponseMalformed None (Some ''JWS signature invalid.'')),
                             d, c)
                          else
                            (case validate_nonce serial (hdr_nonce combined) c of
                               (False, c') \<Rightarrow> (Inr AcmeResponseBadNonce, d, c')
                             | (True, c') \<Rightarrow>
                                 if hdr_url combined \<noteq> req_uri request then
                                   (Inr (AcmeResponseUnauthorized None
                                           (Some ''URL does not match.'')), d, c')
                                 else
                                   (case process_acme_request sg d of
                                      (r, d') \<Rightarrow> (catch_acme r, d', c'))))))))"

text \<open>
  \<^verbatim>\<open>AcmePostAsGetView.process_acme_request\<close>; \<open>slug\<close> is the optional URL argument.
\<close>

definition post_as_get ::
  "bool \<Rightarrow> (signer \<Rightarrow> string \<Rightarrow> db \<Rightarrow> (exn + 'a response) \<times> db) \<Rightarrow> string option \<Rightarrow>
   signer \<Rightarrow> db \<Rightarrow> (exn + 'a response) \<times> db" where
  "post_as_get ignore_body acme_request slug sg d =
     (if \<not> ignore_body \<and> jws_payload (sig_jws sg) \<noteq> [] then
        (Inr (AcmeResponseMalformed None (Some ''Non-empty payload in get-as-post request.'')), d)
      else
        (case slug of
           None \<Rightarrow> (Inr (AcmeResponseError ''PostAsGet view called with slug.''), d)
         | Some sl \<Rightarrow> acme_request sg sl d))"

text \<open>
  \<^verbatim>\<open>AcmeMessageBaseView.process_acme_request\<close>; \<open>json_loads\<close> is
  \<^verbatim>\<open>self.message_cls.json_loads\<close>, with the arguments of the \<^verbatim>\<open>DeserializationError\<close> on
  the left.
\<close>

definition message_view ::
  "(string \<Rightarrow> string + 'm) \<Rightarrow> (signer \<Rightarrow> 'm \<Rightarrow> string option \<Rightarrow> db \<Rightarrow> (exn + 'a response) \<times> db) \<Rightarrow>
   string option \<Rightarrow> signer \<Rightarrow> db \<Rightarrow> (exn + 'a response) \<times> db" where
  "message_view json_loads acme_request slug sg d =
     (case json_loads (jws_payload (sig_jws sg)) of
        Inl args \<Rightarrow> (Inr (AcmeResponseMalformedPayload args), d)
      | Inr message \<Rightarrow> acme_request sg message slug d)"

section \<open>The documents that the views return\<close>

text \<open>
  A URL of a resource is determined by its slug, so the documents carry slugs where the
  responses carry \<^verbatim>\<open>request.build_absolute_uri(x.acme_url)\<close>. Identifiers are pairs of type
  and value.
\<close>

record order_doc =
  doc_status :: order_status
  doc_expires :: int
  doc_identifiers :: "(string \<times> string) list"
  doc_authorizations :: "string list"
  doc_certificate :: "string option"
  doc_not_before :: "int option"
  doc_not_after :: "int option"
  doc_location :: string

record authorization_doc =
  adoc_identifier :: "string \<times> string"
  adoc_challenges :: "acme_challenge list"
  adoc_status :: auth_status
  adoc_expires :: int

datatype payload =
    Order order_doc
  | OrderCreated order_doc
  | Account acme_account
  | AccountCreated acme_account
  | Authorization authorization_doc
  | Challenge acme_challenge
  | CertificateChain string

section \<open>Viewing an order (\<^verbatim>\<open>AcmeOrderView\<close>)\<close>

text \<open>
  The views below run after \<^verbatim>\<open>post\<close> has authenticated the request by key identifier;
  \<open>account\<close> is \<^verbatim>\<open>self.account\<close>, the account that \<^verbatim>\<open>post\<close> resolved.
\<close>

definition order_view ::
  "api \<Rightarrow> acme_account \<Rightarrow> string \<Rightarrow> db \<Rightarrow> (exn + payload response) \<times> db" where
  "order_view api account slug d =
     (case qs_get (filter (\<lambda>r. order_viewable api d r \<and> ord_account r = acc_pk account \<and>
                     ord_slug r = slug) (orders d)) of
        Inl DoesNotExist \<Rightarrow> (Inl (AcmeUnauthorized None None), d)
      | Inl e \<Rightarrow> (Inl e, d)
      | Inr order \<Rightarrow>
          (let all_auths = filter (\<lambda>a. auth_order a = ord_pk order) (authorizations d);
               auths = (if ord_status order \<in> {Valid, Invalid}
                        then filter (\<lambda>a. auth_status a = AuthValid) all_auths
                        else all_auths)
           in
           case
             (case qs_get (filter (\<lambda>c. cert_order c = ord_pk order) (certificates d)) of
                Inr cert \<Rightarrow>
                  Inr (if cert_cert cert \<noteq> None \<and> ord_status order = Valid
                       then Some (cert_slug cert) else None)
              | Inl DoesNotExist \<Rightarrow> Inr None
              | Inl e \<Rightarrow> Inl e)
           of
             Inl e \<Rightarrow> (Inl e, d)
           | Inr cert_url \<Rightarrow>
               (Inr (AcmeResponseOk (Order
                  \<lparr>doc_status = ord_status order,
                   doc_expires = ord_expires order,
                   doc_identifiers = map (\<lambda>a. (auth_type a, auth_value a)) auths,
                   doc_authorizations = map auth_slug auths,
                   doc_certificate = cert_url,
                   doc_not_before = None,
                   doc_not_after = None,
                   doc_location = ord_slug order\<rparr>)), d)))"

section \<open>Finalizing an order (\<^verbatim>\<open>AcmeOrderFinalizeView\<close>)\<close>

text \<open>
  The certificate request as the cryptography library presents it: whether its signature
  verifies, the hash algorithm of the signature, the attributes of the subject (object
  identifier and value, in order), the value of the subject alternative name extension
  (\<open>None\<close> when \<^verbatim>\<open>get_extension_for_class\<close> raises \<^verbatim>\<open>ExtensionNotFound\<close>) and the PEM text.
\<close>

datatype hash_algorithm = MD5 | SHA1 | SHA224 | SHA256 | SHA384 | SHA512

datatype general_name = DNSName string | OtherGeneralName string string

record csr =
  csr_is_signature_valid :: bool
  csr_signature_hash_algorithm :: hash_algorithm
  csr_subject :: "(string \<times> string) list"
  csr_san :: "general_name list option"
  csr_pem :: string

fun hash_name :: "hash_algorithm \<Rightarrow> string" where
  "hash_name MD5 = ''md5''"
| "hash_name SHA1 = ''sha1''"
| "hash_name SHA224 = ''sha224''"
| "hash_name SHA256 = ''sha256''"
| "hash_name SHA384 = ''sha384''"
| "hash_name SHA512 = ''sha512''"

text \<open>\<^verbatim>\<open>NameOID.COMMON_NAME\<close>\<close>

definition COMMON_NAME :: string where
  "COMMON_NAME = ''2.5.4.3''"

text \<open>
  \<^verbatim>\<open>validate_csr\<close>. Two helpers are parameters, since \<^verbatim>\<open>utils.py\<close>, \<^verbatim>\<open>models.py\<close> and the
  extension classes are not part of the sources at hand: \<open>check_name subject\<close> is the
  exception that \<^verbatim>\<open>check_name(csr.subject)\<close> raises, if any, and \<open>auth_name a\<close> is the
  general name that \<^verbatim>\<open>SubjectAlternativeName\<close> parses from
  \<^verbatim>\<open>a.subject_alternative_name\<close>.
\<close>

definition validate_csr ::
  "((string \<times> string) list \<Rightarrow> exn option) \<Rightarrow> (acme_authorization \<Rightarrow> general_name) \<Rightarrow>
   csr \<Rightarrow> acme_authorization list \<Rightarrow> exn + string" where
  "validate_csr check_name auth_name csr auths =
     (if \<not> csr_is_signature_valid csr then
        Inl (AcmeBadCSR None (Some ''CSR signature is not valid.''))
      else if csr_signature_hash_algorithm csr \<in> {MD5, SHA1} then
        Inl (AcmeBadCSR None
              (Some (hash_name (csr_signature_hash_algorithm csr) @ '': Insecure hash algorithm.'')))
      else
        (let names_from_order = set (map auth_name auths);
             subject_check =
               (if csr_subject csr \<noteq> [] then
                  (case check_name (csr_subject csr) of
                     Some e \<Rightarrow> Some e
                   | None \<Rightarrow>
                       (case find (\<lambda>attr. fst attr = COMMON_NAME) (csr_subject csr) of
                          None \<Rightarrow> None
                        | Some common_name \<Rightarrow>
                            if DNSName (snd common_name) \<notin> names_from_order
                            then Some (AcmeBadCSR None (Some ''CommonName was not in order.''))
                            else None))
                else None)
         in
         case subject_check of
           Some e \<Rightarrow> Inl e
         | None \<Rightarrow>
             (case csr_san csr of
                None \<Rightarrow>
                  Inl (AcmeBadCSR None (Some ''No subject alternative names found in CSR.''))
              | Some names \<Rightarrow>
                  if names_from_order \<noteq> set names then
                    Inl (AcmeBadCSR None (Some ''Names in CSR do not match.''))
                  else Inr (csr_pem csr))))"

text \<open>
  \<^verbatim>\<open>AcmeOrderFinalizeView.acme_request\<close>. The message carries the certificate request;
  \<open>new_slug\<close> is the random slug of the new \<^verbatim>\<open>AcmeCertificate\<close> row.
\<close>

definition finalize ::
  "api \<Rightarrow> ((string \<times> string) list \<Rightarrow> exn option) \<Rightarrow> (acme_authorization \<Rightarrow> general_name) \<Rightarrow>
   string \<Rightarrow> acme_account \<Rightarrow> csr \<Rightarrow> string option \<Rightarrow> db \<Rightarrow>
   (exn + payload response) \<times> db" where
  "finalize api check_name auth_name new_slug account message slug d =
     (case qs_get (filter (\<lambda>r. order_viewable api d r \<and> ord_account r = acc_pk account \<and>
                     Some (ord_slug r) = slug) (orders d)) of
        Inl DoesNotExist \<Rightarrow> (Inl (AcmeUnauthorized None None), d)
      | Inl e \<Rightarrow> (Inl e, d)
      | Inr order \<Rightarrow>
          if ord_status order \<noteq> Ready then
            (Inl (AcmeForbidden (Some ''orderNotReady'') (Some ''This order is not yet ready.'')), d)
          else
            (let auths = filter (\<lambda>a. auth_order a = ord_pk order) (authorizations d) in
             if list_ex (\<lambda>a. auth_status a \<noteq> AuthValid) auths then
               (Inl (AcmeForbidden (Some ''orderNotReady'') (Some ''This order is not yet ready.'')),
                d)
             else
               (case validate_csr check_name auth_name message auths of
                  Inl e \<Rightarrow> (Inl e, d)
                | Inr pem \<Rightarrow>
                    (let cert = \<lparr>cert_pk = next_pk cert_pk (certificates d),
                                 cert_order = ord_pk order, cert_slug = new_slug,
                                 cert_csr = pem, cert_cert = None\<rparr>;
                         order' = order\<lparr>ord_status := Processing\<rparr>;
                         d' = d\<lparr>certificates := certificates d @ [cert],
                                orders := qs_save ord_pk order' (orders d),
                                tasks := tasks d @ [(''acme_issue_certificate'', cert_pk cert)]\<rparr>
                     in
                     (Inr (AcmeResponseOk (Order
                        \<lparr>doc_status = ord_status order',
                         doc_expires = ord_expires order',
                         doc_identifiers = map (\<lambda>a. (auth_type a, auth_value a)) auths,
                         doc_authorizations = map auth_slug auths,
                         doc_certificate = None,
                         doc_not_before = None,
                         doc_not_after = None,
                         doc_location = ord_slug order'\<rparr>)), d')))))"

section \<open>Certificate, authorization and challenge (\<^verbatim>\<open>AcmePostAsGetView\<close> subclasses)\<close>

definition certificate_view ::
  "api \<Rightarrow> acme_account \<Rightarrow> string \<Rightarrow> db \<Rightarrow> (exn + payload response) \<times> db" where
  "certificate_view api account slug d =
     (case qs_get (filter (\<lambda>r. certificate_viewable api d r \<and>
                     order_account_is d (cert_order r) (acc_pk account) \<and>
                     cert_slug r = slug) (certificates d)) of
        Inl DoesNotExist \<Rightarrow> (Inl (AcmeUnauthorized None None), d)
      | Inl e \<Rightarrow> (Inl e, d)
      | Inr cert \<Rightarrow> (Inr (AcmeResponseOk (CertificateChain (cert_bundle api d cert))), d))"

definition authorization_view ::
  "api \<Rightarrow> acme_account \<Rightarrow> string \<Rightarrow> db \<Rightarrow> (exn + payload response) \<times> db" where
  "authorization_view api account slug d =
     (case qs_get (filter (\<lambda>r. auth_viewable api d r \<and>
                     order_account_is d (auth_order r) (acc_pk account) \<and>
                     auth_slug r = slug) (authorizations d)) of
        Inl DoesNotExist \<Rightarrow> (Inl (AcmeUnauthorized None None), d)
      | Inl e \<Rightarrow> (Inl e, d)
      | Inr auth \<Rightarrow>
          (case get_challenges api d auth of
             (challs, d') \<Rightarrow>
               (let challs' = (if auth_status auth = AuthValid
                               then filter (\<lambda>c. chall_status c = ChallengeValid) challs
                               else challs)
                in
                (Inr (AcmeResponseOk (Authorization
                   \<lparr>adoc_identifier = (auth_type auth, auth_value auth),
                    adoc_challenges = challs',
                    adoc_status = auth_status auth,
                    adoc_expires = auth_expires auth\<rparr>)), d'))))"

definition challenge_view ::
  "api \<Rightarrow> acme_account \<Rightarrow> string \<Rightarrow> db \<Rightarrow> (exn + payload response) \<times> db" where
  "challenge_view api account slug d =
     (case qs_get (filter (\<lambda>r. challenge_viewable api d r \<and>
                     auth_account_is d (chall_auth r) (acc_pk account) \<and>
                     chall_slug r = slug) (challenges d)) of
        Inl DoesNotExist \<Rightarrow> (Inl (AcmeUnauthorized None None), d)
      | Inl e \<Rightarrow> (Inl e, d)
      | Inr challenge \<Rightarrow>
          if challenge_usable api d challenge then
            (let challenge' = challenge\<lparr>chall_status := ChallengeProcessing\<rparr>;
                 d' = d\<lparr>challenges := qs_save chall_pk challenge' (challenges d),
                        tasks := tasks d @ [(''acme_validate_challenge'', chall_pk challenge')]\<rparr>
             in (Inr (AcmeResponseOk (Challenge challenge')), d'))
          else (Inr (AcmeResponseOk (Challenge challenge)), d))"

section \<open>Updating an account (\<^verbatim>\<open>AcmeAccountView\<close>)\<close>

text \<open>The fields of \<^verbatim>\<open>acme.messages.Registration\<close> that the views read.\<close>

record registration =
  reg_status :: "string option"
  reg_contact :: "string list"
  reg_only_return_existing :: bool
  reg_terms_of_service_agreed :: bool

text \<open>\<^verbatim>\<open>"\n".join(xs)\<close>\<close>

fun join_lines :: "string list \<Rightarrow> string" where
  "join_lines [] = []"
| "join_lines [x] = x"
| "join_lines (x # y # zs) = x @ [CHR 0x0A] @ join_lines (y # zs)"

text \<open>\<^verbatim>\<open>AcmeAccount.STATUS_DEACTIVATED\<close>, the text that the message carries.\<close>

definition STATUS_DEACTIVATED :: string where
  "STATUS_DEACTIVATED = ''deactivated''"

text \<open>
  \<^verbatim>\<open>AcmeAccountView.acme_request\<close>. The view is \<^verbatim>\<open>transaction.atomic\<close>: what it wrote before
  an exception is rolled back, so a failure returns the database it was given.
\<close>

definition account_view ::
  "(string \<Rightarrow> bool) \<Rightarrow> registration \<Rightarrow> string option \<Rightarrow> db \<Rightarrow> (exn + payload response) \<times> db" where
  "account_view validate_email message slug d =
     (case qs_get (filter (\<lambda>a. Some (acc_slug a) = slug) (accounts d)) of
        Inl e \<Rightarrow> (Inl e, d)
      | Inr account \<Rightarrow>
          if reg_status message = Some STATUS_DEACTIVATED then
            (let account' = account\<lparr>acc_status := AccountDeactivated\<rparr>;
                 d1 = d\<lparr>accounts := qs_save acc_pk account' (accounts d)\<rparr>;
                 d2 = d1\<lparr>orders :=
                         qs_update (\<lambda>r. ord_account r = acc_pk account' \<and> ord_status r = Pending)
                           (\<lambda>r. r\<lparr>ord_status := Invalid\<rparr>) (orders d1)\<rparr>;
                 d3 = d2\<lparr>authorizations :=
                         qs_update (\<lambda>a. order_account_is d2 (auth_order a) (acc_pk account') \<and>
                                         auth_status a = AuthPending)
                           (\<lambda>a. a\<lparr>auth_status := AuthDeactivated\<rparr>) (authorizations d2)\<rparr>
             in (Inr (AcmeResponseOk (Account account')), d3))
          else if reg_contact message \<noteq> [] then
            (case validate_contacts validate_email (reg_contact message) of
               Inl e \<Rightarrow> (Inl e, d)
             | Inr _ \<Rightarrow>
                 (let account' = account\<lparr>acc_contact := join_lines (reg_contact message)\<rparr>
                  in (Inr (AcmeResponseOk (Account account')),
                      d\<lparr>accounts := qs_save acc_pk account' (accounts d)\<rparr>)))
          else
            (Inl (AcmeMalformed None (Some ''Only contact information can be updated.'')), d))"

section \<open>Creating an order (\<^verbatim>\<open>AcmeNewOrderView\<close>)\<close>

text \<open>
  Points in time and durations are integers, in microseconds. A duration setting of
  \<^verbatim>\<open>ca_settings.py\<close> is absent, a number of days or a \<^verbatim>\<open>timedelta\<close>:
  \<^verbatim>\<open>ACME_MAX_CERT_VALIDITY = getattr(settings, "CA_ACME_MAX_CERT_VALIDITY", timedelta(days=90))\<close>
  and \<^verbatim>\<open>if isinstance(ACME_MAX_CERT_VALIDITY, int): ... = timedelta(days=ACME_MAX_CERT_VALIDITY)\<close>.
\<close>

datatype duration_setting = Days int | Timedelta int

definition days :: "int \<Rightarrow> int" where
  "days n = n * 86400 * 1000000"

definition ACME_MAX_CERT_VALIDITY :: "duration_setting option \<Rightarrow> int" where
  "ACME_MAX_CERT_VALIDITY setting =
     (case setting of
        None \<Rightarrow> days 90
      | Some (Days n) \<Rightarrow> days n
      | Some (Timedelta t) \<Rightarrow> t)"

text \<open>The fields of the \<^verbatim>\<open>NewOrder\<close> message.\<close>

record new_order_message =
  msg_identifiers :: "(string \<times> string) list"
  msg_not_before :: "int option"
  msg_not_after :: "int option"

text \<open>
  Modelled from the spec: \<^verbatim>\<open>AcmeOrder.objects.create\<close> and the defaults of the model are in
  \<^verbatim>\<open>models.py\<close>, which is not part of the sources at hand. A new order is in status
  \<open>pending\<close>; \<open>rand\<close> is the source of random slugs, \<open>order_validity\<close> the lifetime of an
  order.
\<close>

definition create_order ::
  "(nat \<Rightarrow> string) \<Rightarrow> int \<Rightarrow> int \<Rightarrow> acme_account \<Rightarrow> int option \<Rightarrow> int option \<Rightarrow> db \<Rightarrow>
   acme_order \<times> db" where
  "create_order rand order_validity now account not_before not_after d =
     (let order = \<lparr>ord_pk = next_pk ord_pk (orders d), ord_account = acc_pk account,
                   ord_slug = rand 0, ord_status = Pending, ord_not_before = not_before,
                   ord_not_after = not_after, ord_expires = now + order_validity\<rparr>
      in (order, d\<lparr>orders := orders d @ [order]\<rparr>))"

text \<open>
  Modelled from the spec: \<^verbatim>\<open>AcmeOrder.add_authorizations\<close> is in \<^verbatim>\<open>models.py\<close>, which is not
  part of the sources at hand. The specification says: on creation, one authorization
  per distinct identifier is created in \<open>pending\<close> status.
\<close>

definition add_authorizations ::
  "(nat \<Rightarrow> string) \<Rightarrow> acme_order \<Rightarrow> (string \<times> string) list \<Rightarrow> db \<Rightarrow>
   acme_authorization list \<times> db" where
  "add_authorizations rand order identifiers d =
     (let idents = remdups identifiers;
          base = next_pk auth_pk (authorizations d);
          authzs = map (\<lambda>(i, ident).
                     \<lparr>auth_pk = base + i, auth_order = ord_pk order, auth_slug = rand (Suc i),
                      auth_type = fst ident, auth_value = snd ident,
                      auth_status = AuthPending, auth_expires = ord_expires order\<rparr>)
                   (enumerate 0 idents)
      in (authzs, d\<lparr>authorizations := authorizations d @ authzs\<rparr>))"

text \<open>
  \<^verbatim>\<open>AcmeNewOrderView.acme_request\<close>. A \<^verbatim>\<open>datetime\<close> is always true in Python, so
  \<^verbatim>\<open>not_before and ...\<close> asks whether the bound was given. The conversions between naive
  and aware times change the representation of a time, not the time.
\<close>

definition new_order ::
  "int \<Rightarrow> int \<Rightarrow> (nat \<Rightarrow> string) \<Rightarrow> int \<Rightarrow> acme_account \<Rightarrow> new_order_message \<Rightarrow> db \<Rightarrow>
   (exn + payload response) \<times> db" where
  "new_order max_cert_validity order_validity rand now account message d =
     (let not_before = msg_not_before message; not_after = msg_not_after message in
      if (case not_before of Some nb \<Rightarrow> nb < now | None \<Rightarrow> False) then
        (Inl (AcmeMalformed None (Some ''Certificate cannot be valid before now.'')), d)
      else if (case not_after of Some na \<Rightarrow> na > now + max_cert_validity | None \<Rightarrow> False) then
        (Inl (AcmeMalformed None (Some ''Certificate cannot be valid that long.'')), d)
      else if (case (not_before, not_after) of (Some nb, Some na) \<Rightarrow> nb > na | _ \<Rightarrow> False) then
        (Inl (AcmeMalformed None (Some ''notBefore must be before notAfter.'')), d)
      else if msg_identifiers message = [] then
        (Inl (AcmeMalformed None (Some ''The following fields are required: identifiers'')), d)
      else
        (case create_order rand order_validity now account not_before not_after d of
           (order, d1) \<Rightarrow>
             (case add_authorizations rand order (msg_identifiers message) d1 of
                (authzs, d2) \<Rightarrow>
                  (Inr (AcmeResponseOk (OrderCreated
                     \<lparr>doc_status = ord_status order,
                      doc_expires = ord_expires order,
                      doc_identifiers = msg_identifiers message,
                      doc_authorizations = map auth_slug authzs,
                      doc_certificate = None,
                      doc_not_before = msg_not_before message,
                      doc_not_after = msg_not_after message,
                      doc_location = ord_slug order\<rparr>)), d2))))"

section \<open>Certificate profiles (\<^verbatim>\<open>profiles.py\<close>)\<close>

subsection \<open>Python dictionaries\<close>

text \<open>
  A dictionary is the list of its items in insertion order, with distinct keys. Assigning
  to a key that is present replaces the value in place; assigning to a new key appends
  the item (\<^const>\<open>AList.update\<close>).
\<close>

type_synonym 'v dict = "(string \<times> 'v) list"

definition is_dict :: "'v dict \<Rightarrow> bool" where
  "is_dict d \<longleftrightarrow> distinct (map fst d)"

definition dict_get :: "'v dict \<Rightarrow> string \<Rightarrow> 'v option" where
  "dict_get d k = map_of d k"

definition dict_set :: "string \<Rightarrow> 'v \<Rightarrow> 'v dict \<Rightarrow> 'v dict" where
  "dict_set k v d = AList.update k v d"

text \<open>\<^verbatim>\<open>d.update(other)\<close>\<close>

definition dict_update :: "'v dict \<Rightarrow> 'v dict \<Rightarrow> 'v dict" where
  "dict_update d other = fold (\<lambda>(k, v). dict_set k v) other d"

text \<open>\<^verbatim>\<open>d.setdefault(k, v)\<close>, as the dictionary after the call.\<close>

definition dict_setdefault :: "string \<Rightarrow> 'v \<Rightarrow> 'v dict \<Rightarrow> 'v dict" where
  "dict_setdefault k v d = (if dict_get d k = None then d @ [(k, v)] else d)"

subsection \<open>The merge of the extensions\<close>

text \<open>
  \<^verbatim>\<open>cert_extensions = deepcopy(self.extensions)
cert_extensions.update(extensions)
cert_extensions = {k: v for k, v in cert_extensions.items() if v is not None}\<close>
  The extensions of the profile are never \<^verbatim>\<open>None\<close>; an override is \<open>None\<close> for the Python
  value \<^verbatim>\<open>None\<close>.
\<close>

definition merge_extensions :: "'e dict \<Rightarrow> 'e option dict \<Rightarrow> 'e dict" where
  "merge_extensions profile_extensions extensions =
     List.map_filter (\<lambda>(k, v). map_option (Pair k) v)
       (dict_update (map (\<lambda>(k, e). (k, Some e)) profile_extensions) extensions)"

subsection \<open>Extensions, subjects and the signing CA\<close>

text \<open>
  Modelled from the spec: the extension classes (\<^verbatim>\<open>extensions/\<close>) and \<^verbatim>\<open>subject.py\<close> are not
  part of the sources at hand. An extension is known by its class and carries the values
  that \<^verbatim>\<open>create_cert\<close> reads and appends to; a subject is a dictionary from field names to
  values.
\<close>

datatype extension =
    SubjectAlternativeName "general_name list"
  | AuthorityKeyIdentifier string
  | CRLDistributionPoints "string list list"
  | AuthorityInformationAccess "general_name list" "general_name list"
  | IssuerAlternativeName "string list"
  | BasicConstraints bool
  | SubjectKeyIdentifier string
  | OtherExtension string string

fun ext_key :: "extension \<Rightarrow> string" where
  "ext_key (SubjectAlternativeName _) = ''subject_alternative_name''"
| "ext_key (AuthorityKeyIdentifier _) = ''authority_key_identifier''"
| "ext_key (CRLDistributionPoints _) = ''crl_distribution_points''"
| "ext_key (AuthorityInformationAccess _ _) = ''authority_information_access''"
| "ext_key (IssuerAlternativeName _) = ''issuer_alternative_name''"
| "ext_key (BasicConstraints _) = ''basic_constraints''"
| "ext_key (SubjectKeyIdentifier _) = ''subject_key_identifier''"
| "ext_key (OtherExtension k _) = k"

type_synonym subject = "string dict"

text \<open>\<^verbatim>\<open>subject.get("CN")\<close> as a condition: a missing or empty common name is false.\<close>

definition has_cn :: "subject \<Rightarrow> bool" where
  "has_cn subj \<longleftrightarrow> truthy (dict_get subj ''CN'')"

record profile =
  prof_subject :: subject
  prof_extensions :: "extension dict"
  prof_cn_in_san :: bool
  prof_add_crl_url :: bool
  prof_add_ocsp_url :: bool
  prof_add_issuer_url :: bool
  prof_add_issuer_alternative_name :: bool
  prof_issuer_name :: "subject option"

record signing_ca =
  sca_authority_key_identifier :: extension
  sca_crl_url :: string
  sca_ocsp_url :: string
  sca_issuer_url :: string
  sca_issuer_alt_name :: string
  sca_subject :: subject

text \<open>
  The helpers of \<^verbatim>\<open>utils.py\<close> and of the extension classes that \<^verbatim>\<open>create_cert\<close> calls are
  parameters: \<^verbatim>\<open>parse_general_name\<close> (which raises \<^verbatim>\<open>ValueError\<close>), \<^verbatim>\<open>shlex_split(s, ",")\<close>,
  \<^verbatim>\<open>SubjectAlternativeName.get_common_name\<close> and \<^verbatim>\<open>KEY_TO_EXTENSION[key](value)\<close>.
\<close>

record 'r helpers =
  parse_general_name :: "string \<Rightarrow> exn + general_name"
  shlex_split :: "string \<Rightarrow> string list"
  get_common_name :: "general_name list \<Rightarrow> string option"
  key_to_extension :: "string \<Rightarrow> 'r \<Rightarrow> exn + extension"

text \<open>The \<^verbatim>\<open>extensions\<close> argument of \<^verbatim>\<open>create_cert\<close>: \<^verbatim>\<open>None\<close>, a dictionary or a list.\<close>

datatype 'r extension_value = ExtensionObject extension | NoneValue | RawValue 'r

datatype 'r extensions_arg =
    NoExtensions
  | ExtensionsDict "'r extension_value dict"
  | ExtensionsList "extension list"

definition parse_extension_value ::
  "'r helpers \<Rightarrow> string \<Rightarrow> 'r extension_value \<Rightarrow> exn + extension option" where
  "parse_extension_value h key v =
     (case v of
        ExtensionObject e \<Rightarrow> Inr (Some e)
      | NoneValue \<Rightarrow> Inr None
      | RawValue r \<Rightarrow> (case key_to_extension h key r of Inl e \<Rightarrow> Inl e | Inr x \<Rightarrow> Inr (Some x)))"

text \<open>\<^verbatim>\<open>{k: self._parse_extension_value(k, v) for k, v in extensions.items()}\<close>\<close>

fun parse_items ::
  "'r helpers \<Rightarrow> 'r extension_value dict \<Rightarrow> extension option dict \<Rightarrow> exn + extension option dict"
  where
  "parse_items h [] acc = Inr acc"
| "parse_items h ((k, v) # rest) acc =
     (case parse_extension_value h k v of
        Inl e \<Rightarrow> Inl e
      | Inr x \<Rightarrow> parse_items h rest (dict_set k x acc))"

definition normalize_extensions ::
  "'r helpers \<Rightarrow> 'r extensions_arg \<Rightarrow> exn + extension option dict" where
  "normalize_extensions h arg =
     (case arg of
        NoExtensions \<Rightarrow> Inr []
      | ExtensionsDict items \<Rightarrow> parse_items h items []
      | ExtensionsList es \<Rightarrow> Inr (fold (\<lambda>e. dict_set (ext_key e) (Some e)) es []))"

subsection \<open>\<^verbatim>\<open>Profile.create_cert\<close> up to the signal \<^verbatim>\<open>pre_issue_cert\<close>\<close>

text \<open>Sequencing of steps that may raise.\<close>

definition and_then :: "exn + 'a \<Rightarrow> ('a \<Rightarrow> exn + 'b) \<Rightarrow> exn + 'b" where
  "and_then r f = (case r of Inl e \<Rightarrow> Inl e | Inr x \<Rightarrow> f x)"

text \<open>\<^verbatim>\<open>s.split()\<close>: the maximal runs of characters that are not white space.\<close>

definition is_space :: "char \<Rightarrow> bool" where
  "is_space c \<longleftrightarrow> c \<in> {CHR '' '', CHR 0x09, CHR 0x0A, CHR 0x0B, CHR 0x0C, CHR 0x0D}"

fun split_acc :: "string \<Rightarrow> string \<Rightarrow> string list" where
  "split_acc cur [] = (if cur = [] then [] else [cur])"
| "split_acc cur (c # cs) =
     (if is_space c then (if cur = [] then split_acc [] cs else cur # split_acc [] cs)
      else split_acc (cur @ [c]) cs)"

definition py_split :: "string \<Rightarrow> string list" where
  "py_split s = split_acc [] s"

text \<open>
  \<^verbatim>\<open>extensions[key].attribute.append(x)\<close>: the object stored under the key is changed in
  place. An object of another class than the one the key names has no such attribute.
\<close>

definition dict_modify :: "string \<Rightarrow> ('v \<Rightarrow> exn + 'v) \<Rightarrow> 'v dict \<Rightarrow> exn + 'v dict" where
  "dict_modify k f d =
     (case dict_get d k of
        None \<Rightarrow> Inl AttributeError
      | Some v \<Rightarrow> (case f v of Inl e \<Rightarrow> Inl e | Inr v' \<Rightarrow> Inr (dict_set k v' d)))"

fun append_distribution_point :: "string list \<Rightarrow> extension \<Rightarrow> exn + extension" where
  "append_distribution_point full_name (CRLDistributionPoints dps) =
     Inr (CRLDistributionPoints (dps @ [full_name]))"
| "append_distribution_point full_name _ = Inl AttributeError"

fun append_ocsp :: "general_name \<Rightarrow> extension \<Rightarrow> exn + extension" where
  "append_ocsp name (AuthorityInformationAccess ocsp issuers) =
     Inr (AuthorityInformationAccess (ocsp @ [name]) issuers)"
| "append_ocsp name _ = Inl AttributeError"

fun append_issuers :: "general_name \<Rightarrow> extension \<Rightarrow> exn + extension" where
  "append_issuers name (AuthorityInformationAccess ocsp issuers) =
     Inr (AuthorityInformationAccess ocsp (issuers @ [name]))"
| "append_issuers name _ = Inl AttributeError"

fun extend_names :: "string list \<Rightarrow> extension \<Rightarrow> exn + extension" where
  "extend_names names (IssuerAlternativeName xs) = Inr (IssuerAlternativeName (xs @ names))"
| "extend_names names _ = Inl AttributeError"

text \<open>\<^verbatim>\<open>Profile._update_from_ca\<close>: the issuer name and the dictionary after the call.\<close>

definition update_from_ca ::
  "'r helpers \<Rightarrow> profile \<Rightarrow> signing_ca \<Rightarrow> extension dict \<Rightarrow> bool \<Rightarrow> bool \<Rightarrow> bool \<Rightarrow> bool \<Rightarrow>
   exn + (subject \<times> extension dict)" where
  "update_from_ca h prof ca extensions add_crl_url add_ocsp_url add_issuer_url
     add_issuer_alternative_name =
     (let e0 = dict_setdefault ''authority_key_identifier'' (sca_authority_key_identifier ca)
                 extensions
      in
      and_then
        (if add_crl_url \<and> sca_crl_url ca \<noteq> [] then
           dict_modify ''crl_distribution_points''
             (append_distribution_point (py_split (sca_crl_url ca)))
             (dict_setdefault ''crl_distribution_points'' (CRLDistributionPoints []) e0)
         else Inr e0)
        (\<lambda>e1.
      and_then
        (if add_ocsp_url \<and> sca_ocsp_url ca \<noteq> [] then
           and_then (parse_general_name h (sca_ocsp_url ca))
             (\<lambda>name. dict_modify ''authority_information_access'' (append_ocsp name)
                (dict_setdefault ''authority_information_access''
                   (AuthorityInformationAccess [] []) e1))
         else Inr e1)
        (\<lambda>e2.
      and_then
        (if add_issuer_url \<and> sca_issuer_url ca \<noteq> [] then
           and_then (parse_general_name h (sca_issuer_url ca))
             (\<lambda>name. dict_modify ''authority_information_access'' (append_issuers name)
                (dict_setdefault ''authority_information_access''
                   (AuthorityInformationAccess [] []) e2))
         else Inr e2)
        (\<lambda>e3.
      and_then
        (if add_issuer_alternative_name \<and> sca_issuer_alt_name ca \<noteq> [] then
           dict_modify ''issuer_alternative_name''
             (extend_names (shlex_split h (sca_issuer_alt_name ca)))
             (dict_setdefault ''issuer_alternative_name'' (IssuerAlternativeName []) e3)
         else Inr e3)
        (\<lambda>e4.
           Inr (case prof_issuer_name prof of
                  Some name \<Rightarrow> if name \<noteq> [] then name else sca_subject ca
                | None \<Rightarrow> sca_subject ca, e4))))))"

text \<open>
  \<^verbatim>\<open>Profile._update_san_from_cn\<close>. The method changes the subject and the dictionary it is
  given. The extension objects that came from the argument \<^verbatim>\<open>extensions\<close> of \<^verbatim>\<open>create_cert\<close>
  are shared with that argument (\<^verbatim>\<open>cert_extensions.update(extensions)\<close> copies references),
  so an append to such an object shows in both dictionaries; \<open>caller\<close> is that argument.
\<close>

definition update_san_from_cn ::
  "'r helpers \<Rightarrow> bool \<Rightarrow> subject \<Rightarrow> extension dict \<Rightarrow> extension option dict \<Rightarrow>
   exn + (subject \<times> extension dict \<times> extension option dict)" where
  "update_san_from_cn h cn_in_san subj extensions caller =
     (if has_cn subj \<and> cn_in_san then
        (case dict_get subj ''CN'' of
           None \<Rightarrow> Inr (subj, extensions, caller)
         | Some cn \<Rightarrow>
             (case parse_general_name h cn of
                Inl (ValueError _) \<Rightarrow>
                  Inl (ValueError (cn @ '': Could not parse CommonName as subjectAlternativeName.''))
              | Inl e \<Rightarrow> Inl e
              | Inr common_name \<Rightarrow>
                  (let e1 = dict_setdefault ''subject_alternative_name''
                              (SubjectAlternativeName []) extensions
                   in
                   case dict_get e1 ''subject_alternative_name'' of
                     Some (SubjectAlternativeName names) \<Rightarrow>
                       if common_name \<in> set names then Inr (subj, e1, caller)
                       else
                         (let san = SubjectAlternativeName (names @ [common_name]) in
                          Inr (subj, dict_set ''subject_alternative_name'' san e1,
                               (case dict_get caller ''subject_alternative_name'' of
                                  Some (Some _) \<Rightarrow>
                                    dict_set ''subject_alternative_name'' (Some san) caller
                                | _ \<Rightarrow> caller)))
                   | _ \<Rightarrow> Inl AttributeError)))
      else if \<not> has_cn subj \<and> dict_get extensions ''subject_alternative_name'' \<noteq> None then
        (case dict_get extensions ''subject_alternative_name'' of
           Some (SubjectAlternativeName names) \<Rightarrow>
             (case get_common_name h names of
                None \<Rightarrow> Inr (subj, extensions, caller)
              | Some cn \<Rightarrow> Inr (dict_set ''CN'' cn subj, extensions, caller))
         | _ \<Rightarrow> Inl AttributeError)
      else Inr (subj, extensions, caller))"

text \<open>The optional arguments of \<^verbatim>\<open>create_cert\<close>; \<open>None\<close> is the default \<^verbatim>\<open>None\<close>.\<close>

record 'r create_cert_args =
  arg_subject :: "subject option"
  arg_extensions :: "'r extensions_arg"
  arg_cn_in_san :: "bool option"
  arg_add_crl_url :: "bool option"
  arg_add_ocsp_url :: "bool option"
  arg_add_issuer_url :: "bool option"
  arg_add_issuer_alternative_name :: "bool option"

text \<open>
  The test before the signal:
  \<^verbatim>\<open>if not subject.get("CN") and (SubjectAlternativeName.key not in extensions
    or not extensions[SubjectAlternativeName.key].value): raise ValueError(...)\<close>
  where \<^verbatim>\<open>subject\<close> and \<^verbatim>\<open>extensions\<close> are the arguments of \<^verbatim>\<open>create_cert\<close>.
\<close>

definition names_an_identifier :: "subject \<Rightarrow> extension option dict \<Rightarrow> exn + unit" where
  "names_an_identifier subj extensions =
     (if has_cn subj then Inr ()
      else
        (case dict_get extensions ''subject_alternative_name'' of
           None \<Rightarrow> Inl (ValueError ''Must name at least a CN or a subjectAlternativeName.'')
         | Some None \<Rightarrow> Inl AttributeError
         | Some (Some (SubjectAlternativeName names)) \<Rightarrow>
             if names = [] then
               Inl (ValueError ''Must name at least a CN or a subjectAlternativeName.'')
             else Inr ()
         | Some (Some _) \<Rightarrow> Inl AttributeError))"

text \<open>
  \<^verbatim>\<open>Profile.create_cert\<close> from its first line to the signal \<^verbatim>\<open>pre_issue_cert\<close>: the result is
  the subject and the extensions that the signal and the certificate builder receive.
  The choice of the hash algorithm and of the expiry is left out.
\<close>

definition create_cert ::
  "'r helpers \<Rightarrow> profile \<Rightarrow> signing_ca \<Rightarrow> 'r create_cert_args \<Rightarrow> exn + (subject \<times> extension dict)"
  where
  "create_cert h prof ca args =
     and_then (normalize_extensions h (arg_extensions args))
       (\<lambda>extensions.
          (let cn_in_san = (case arg_cn_in_san args of None \<Rightarrow> prof_cn_in_san prof | Some b \<Rightarrow> b);
               add_crl_url =
                 (case arg_add_crl_url args of None \<Rightarrow> prof_add_crl_url prof | Some b \<Rightarrow> b);
               add_ocsp_url =
                 (case arg_add_ocsp_url args of None \<Rightarrow> prof_add_ocsp_url prof | Some b \<Rightarrow> b);
               add_issuer_url =
                 (case arg_add_issuer_url args of None \<Rightarrow> prof_add_issuer_url prof | Some b \<Rightarrow> b);
               add_issuer_alternative_name =
                 (case arg_add_issuer_alternative_name args of
                    None \<Rightarrow> prof_add_issuer_alternative_name prof
                  | Some b \<Rightarrow> b);
               cert_extensions = merge_extensions (prof_extensions prof) extensions;
               cert_subject = prof_subject prof
           in
           and_then
             (update_from_ca h prof ca cert_extensions add_crl_url add_ocsp_url add_issuer_url
                add_issuer_alternative_name)
             (\<lambda>(issuer_name, cert_extensions1).
                (let subj = (case arg_subject args of None \<Rightarrow> [] | Some x \<Rightarrow> x);
                     cert_subject1 = dict_update cert_subject subj
                 in
                 and_then (update_san_from_cn h cn_in_san cert_subject1 cert_extensions1 extensions)
                   (\<lambda>(cert_subject2, cert_extensions2, extensions2).
                      and_then (names_an_identifier subj extensions2)
                        (\<lambda>_. Inr (cert_subject2, cert_extensions2)))))))"

section \<open>Example data\<close>

text \<open>
  A small installation: one CA, the accounts of two clients and their orders. The query
  set filters admit every row; the signature check compares the signature with the key.
\<close>

definition example_api :: api where
  "example_api =
     \<lparr>ca_usable = (\<lambda>ca. True),
      account_viewable = (\<lambda>d a. True),
      account_usable = (\<lambda>d a. acc_status a = AccountValid),
      order_viewable = (\<lambda>d r. True),
      auth_viewable = (\<lambda>d a. True),
      challenge_viewable = (\<lambda>d c. True),
      challenge_usable = (\<lambda>d c. chall_status c = ChallengePending),
      certificate_viewable = (\<lambda>d c. True),
      get_challenges = (\<lambda>d a. (filter (\<lambda>c. chall_auth c = auth_pk a) (challenges d), d)),
      cert_bundle = (\<lambda>d c. case cert_cert c of Some pem \<Rightarrow> pem | None \<Rightarrow> [])\<rparr>"

definition example_crypto :: crypto where
  "example_crypto = \<lparr>jws_verify = (\<lambda>sg key. Some (sg = key)), jwk_load = (\<lambda>pem. pem)\<rparr>"

definition example_ca :: certificate_authority where
  "example_ca = \<lparr>ca_pk = 1, ca_serial = ''3A91'', ca_acme_requires_contact = True\<rparr>"

definition alice :: acme_account where
  "alice = \<lparr>acc_pk = 1, acc_ca = 1, acc_slug = ''Mr6FfdD68lzp'', acc_kid = ''acct/Mr6FfdD68lzp'',
            acc_pem = ''key-of-alice'', acc_thumbprint = ''U-yUM27CQn9p'',
            acc_contact = ''mailto:alice@example.com'', acc_status = AccountValid\<rparr>"

definition bob :: acme_account where
  "bob = \<lparr>acc_pk = 2, acc_ca = 1, acc_slug = ''DzW4PQ6L76PE'', acc_kid = ''acct/DzW4PQ6L76PE'',
          acc_pem = ''key-of-bob'', acc_thumbprint = ''s_glgc6Fem0C'',
          acc_contact = ''mailto:bob@example.net'', acc_status = AccountValid\<rparr>"

definition example_orders :: "acme_order list" where
  "example_orders =
     [\<lparr>ord_pk = 1, ord_account = 1, ord_slug = ''order1'', ord_status = Pending,
       ord_not_before = None, ord_not_after = None, ord_expires = 3600\<rparr>,
      \<lparr>ord_pk = 2, ord_account = 1, ord_slug = ''order2'', ord_status = Ready,
       ord_not_before = None, ord_not_after = None, ord_expires = 3600\<rparr>,
      \<lparr>ord_pk = 3, ord_account = 2, ord_slug = ''order3'', ord_status = Pending,
       ord_not_before = None, ord_not_after = None, ord_expires = 3600\<rparr>,
      \<lparr>ord_pk = 4, ord_account = 1, ord_slug = ''order4'', ord_status = Valid,
       ord_not_before = None, ord_not_after = None, ord_expires = 3600\<rparr>]"

definition example_authorizations :: "acme_authorization list" where
  "example_authorizations =
     [\<lparr>auth_pk = 1, auth_order = 1, auth_slug = ''authz1'', auth_type = ''dns'',
       auth_value = ''a.example.com'', auth_status = AuthPending, auth_expires = 3600\<rparr>,
      \<lparr>auth_pk = 2, auth_order = 2, auth_slug = ''authz2'', auth_type = ''dns'',
       auth_value = ''b.example.com'', auth_status = AuthValid, auth_expires = 3600\<rparr>,
      \<lparr>auth_pk = 3, auth_order = 3, auth_slug = ''authz3'', auth_type = ''dns'',
       auth_value = ''c.example.net'', auth_status = AuthPending, auth_expires = 3600\<rparr>,
      \<lparr>auth_pk = 4, auth_order = 4, auth_slug = ''authz4'', auth_type = ''dns'',
       auth_value = ''d.example.com'', auth_status = AuthValid, auth_expires = 3600\<rparr>]"

definition example_db :: db where
  "example_db =
     \<lparr>cas = [example_ca], accounts = [alice, bob], orders = example_orders,
      authorizations = example_authorizations, challenges = [], certificates = [],
      tasks = []\<rparr>"

text \<open>A table-free installation: no CA is configured.\<close>

definition empty_db :: db where
  "empty_db =
     \<lparr>cas = [], accounts = [], orders = [], authorizations = [], challenges = [],
      certificates = [], tasks = []\<rparr>"

text \<open>A request whose protected header carries neither a key nor a key identifier.\<close>

definition keyless_jws :: jws where
  "keyless_jws =
     \<lparr>jws_combined = \<lparr>hdr_jwk = None, hdr_kid = None, hdr_alg = Some ''RS256'',
                       hdr_nonce = ''q1w2'', hdr_url = ''https://ca.example.com/acme/''\<rparr>,
      jws_signatures = 1, jws_payload = [], jws_signature = ''sig''\<rparr>"

definition keyless_request :: request where
  "keyless_request =
     \<lparr>req_content_type = ''application/jose+json'', req_body = Some keyless_jws,
      req_uri = ''https://ca.example.com/acme/''\<rparr>"

text \<open>A request that carries both.\<close>

definition overfull_jws :: jws where
  "overfull_jws =
     \<lparr>jws_combined = \<lparr>hdr_jwk = Some ''key-of-alice'', hdr_kid = Some ''acct/Mr6FfdD68lzp'',
                       hdr_alg = Some ''RS256'', hdr_nonce = ''q1w2'',
                       hdr_url = ''https://ca.example.com/acme/''\<rparr>,
      jws_signatures = 1, jws_payload = [], jws_signature = ''sig''\<rparr>"

definition overfull_request :: request where
  "overfull_request =
     \<lparr>req_content_type = ''application/jose+json'', req_body = Some overfull_jws,
      req_uri = ''https://ca.example.com/acme/''\<rparr>"

text \<open>A view that answers every authenticated request with the empty document.\<close>

definition trivial_view :: "signer \<Rightarrow> db \<Rightarrow> (exn + unit response) \<times> db" where
  "trivial_view sg d = (Inr (AcmeResponseOk ()), d)"

text \<open>An address check that accepts everything.\<close>

definition any_email :: "string \<Rightarrow> bool" where
  "any_email addr = True"

text \<open>A message that asks for new contact data.\<close>

definition contact_update :: "string list \<Rightarrow> registration" where
  "contact_update contacts =
     \<lparr>reg_status = None, reg_contact = contacts, reg_only_return_existing = False,
      reg_terms_of_service_agreed = True\<rparr>"

text \<open>
  Certificate requests for the second order of the first account (one name,
  \<open>b.example.com\<close>): the names of the order, one name more, and no extension at all.
\<close>

definition accept_name :: "(string \<times> string) list \<Rightarrow> exn option" where
  "accept_name subj = None"

definition auth_dns_name :: "acme_authorization \<Rightarrow> general_name" where
  "auth_dns_name a = DNSName (auth_value a)"

definition matching_csr :: csr where
  "matching_csr =
     \<lparr>csr_is_signature_valid = True, csr_signature_hash_algorithm = SHA256, csr_subject = [],
      csr_san = Some [DNSName ''b.example.com''], csr_pem = ''CSR-1''\<rparr>"

definition superset_csr :: csr where
  "superset_csr =
     \<lparr>csr_is_signature_valid = True, csr_signature_hash_algorithm = SHA256, csr_subject = [],
      csr_san = Some [DNSName ''b.example.com'', DNSName ''x.example.org''],
      csr_pem = ''CSR-2''\<rparr>"

definition sanless_csr :: csr where
  "sanless_csr =
     \<lparr>csr_is_signature_valid = True, csr_signature_hash_algorithm = SHA256, csr_subject = [],
      csr_san = None, csr_pem = ''CSR-3''\<rparr>"

text \<open>The message that deactivates an account.\<close>

definition deactivation :: registration where
  "deactivation =
     \<lparr>reg_status = Some ''deactivated'', reg_contact = [], reg_only_return_existing = False,
      reg_terms_of_service_agreed = False\<rparr>"

text \<open>Slugs for new rows, and an order for two names, one of them given twice.\<close>

definition example_rand :: "nat \<Rightarrow> string" where
  "example_rand i = replicate (Suc i) (CHR ''s'')"

definition example_new_order :: new_order_message where
  "example_new_order =
     \<lparr>msg_identifiers = [(''dns'', ''example.com''), (''dns'', ''www.example.com''),
                         (''dns'', ''example.com'')],
      msg_not_before = None, msg_not_after = None\<rparr>"

text \<open>The order of scenario 3 of the specification: valid for 91 days.\<close>

definition long_new_order :: new_order_message where
  "long_new_order =
     \<lparr>msg_identifiers = [(''dns'', ''example.com'')], msg_not_before = None,
      msg_not_after = Some (days 91)\<rparr>"

text \<open>
  Two profiles that name an identifier themselves, by a common name in the default subject
  and by a subject alternative name among the default extensions, a CA without URLs, and
  a call of \<^verbatim>\<open>create_cert\<close> that passes neither a subject nor extensions.
\<close>

definition example_helpers :: "unit helpers" where
  "example_helpers =
     \<lparr>parse_general_name =
        (\<lambda>s. if s = [] \<or> CHR '' '' \<in> set s then Inl (ValueError ''Could not parse name'')
             else Inr (DNSName s)),
      shlex_split = (\<lambda>s. [s]),
      get_common_name =
        (\<lambda>names. case names of
                    [] \<Rightarrow> None
                  | DNSName n # _ \<Rightarrow> Some n
                  | OtherGeneralName _ v # _ \<Rightarrow> Some v),
      key_to_extension = (\<lambda>k r. Inl (ValueError ''Unknown extension''))\<rparr>"

definition cn_profile :: profile where
  "cn_profile =
     \<lparr>prof_subject = [(''C'', ''AT''), (''CN'', ''example.com'')],
      prof_extensions = [(''basic_constraints'', BasicConstraints False)],
      prof_cn_in_san = True, prof_add_crl_url = True, prof_add_ocsp_url = True,
      prof_add_issuer_url = True, prof_add_issuer_alternative_name = True,
      prof_issuer_name = None\<rparr>"

definition san_profile :: profile where
  "san_profile =
     \<lparr>prof_subject = [(''C'', ''AT'')],
      prof_extensions =
        [(''basic_constraints'', BasicConstraints False),
         (''subject_alternative_name'', SubjectAlternativeName [DNSName ''example.com''])],
      prof_cn_in_san = True, prof_add_crl_url = True, prof_add_ocsp_url = True,
      prof_add_issuer_url = True, prof_add_issuer_alternative_name = True,
      prof_issuer_name = None\<rparr>"

definition example_signing_ca :: signing_ca where
  "example_signing_ca =
     \<lparr>sca_authority_key_identifier = AuthorityKeyIdentifier ''79:26:89:D2'',
      sca_crl_url = [], sca_ocsp_url = [], sca_issuer_url = [], sca_issuer_alt_name = [],
      sca_subject = [(''CN'', ''ca.example.com'')]\<rparr>"

definition default_args :: "unit create_cert_args" where
  "default_args =
     \<lparr>arg_subject = None, arg_extensions = NoExtensions, arg_cn_in_san = None,
      arg_add_crl_url = None, arg_add_ocsp_url = None, arg_add_issuer_url = None,
      arg_add_issuer_alternative_name = None\<rparr>"

text \<open>Default extensions of a profile and two sets of overrides with different keys.\<close>

definition example_extensions :: "extension dict" where
  "example_extensions =
     [(''basic_constraints'', BasicConstraints False),
      (''ocsp_no_check'', OtherExtension ''ocsp_no_check'' []),
      (''issuer_alternative_name'', IssuerAlternativeName [''https://ca.example.com''])]"

definition example_overrides :: "extension option dict" where
  "example_overrides =
     [(''ocsp_no_check'', None),
      (''basic_constraints'', Some (BasicConstraints True))]"

definition other_overrides :: "extension option dict" where
  "other_overrides =
     [(''subject_key_identifier'', Some (SubjectKeyIdentifier ''33:33''))]"




section \<open>Properties of the nonce store\<close>

lemma cache_key_inj:
  assumes "serial_ok s" "serial_ok s'" "cache_key s n = cache_key s' n'"
  shows "s = s' \<and> n = n'"
proof -
  from assms(3) have eq: "s @ CHR ''-'' # n = s' @ CHR ''-'' # n'"
    by (simp add: cache_key_def)
  have "takeWhile (\<lambda>c. c \<noteq> CHR ''-'') (s @ CHR ''-'' # n) = s"
    using assms(1) by (subst takeWhile_append2) (auto simp: serial_ok_def)
  moreover have "takeWhile (\<lambda>c. c \<noteq> CHR ''-'') (s' @ CHR ''-'' # n') = s'"
    using assms(2) by (subst takeWhile_append2) (auto simp: serial_ok_def)
  ultimately have "s = s'" using eq by simp
  with eq show ?thesis by simp
qed

lemma nonce_run_snoc: "nonce_run c (es @ [e]) = nonce_step (nonce_run c es) e"
  by (induction es arbitrary: c) simp_all

lemma nonce_live_Nil: "\<not> nonce_live [] s n"
  by (simp add: nonce_live_def)

lemma nonce_live_snoc:
  "nonce_live (tr @ [e]) s n \<longleftrightarrow>
     e = GetNonce s n \<or> (nonce_live tr s n \<and> e \<noteq> ValidateNonce s n)"
proof
  assume "nonce_live (tr @ [e]) s n"
  then obtain xs ys where d: "tr @ [e] = xs @ GetNonce s n # ys"
    and nv: "ValidateNonce s n \<notin> set ys"
    by (auto simp: nonce_live_def)
  show "e = GetNonce s n \<or> (nonce_live tr s n \<and> e \<noteq> ValidateNonce s n)"
  proof (cases ys rule: rev_cases)
    case Nil
    with d show ?thesis by simp
  next
    case (snoc ys' x)
    with d have "tr @ [e] = (xs @ GetNonce s n # ys') @ [x]" by simp
    then have "tr = xs @ GetNonce s n # ys'" and "e = x" by simp_all
    with nv snoc show ?thesis by (auto simp: nonce_live_def)
  qed
next
  assume "e = GetNonce s n \<or> (nonce_live tr s n \<and> e \<noteq> ValidateNonce s n)"
  then show "nonce_live (tr @ [e]) s n"
  proof
    assume "e = GetNonce s n"
    then have "tr @ [e] = tr @ GetNonce s n # []" by simp
    then show ?thesis unfolding nonce_live_def by (metis empty_iff list.set(1))
  next
    assume a: "nonce_live tr s n \<and> e \<noteq> ValidateNonce s n"
    then obtain xs ys where "tr = xs @ GetNonce s n # ys" "ValidateNonce s n \<notin> set ys"
      by (auto simp: nonce_live_def)
    with a have "tr @ [e] = xs @ GetNonce s n # (ys @ [e])" "ValidateNonce s n \<notin> set (ys @ [e])"
      by auto
    then show ?thesis unfolding nonce_live_def by blast
  qed
qed

text \<open>The counter of a nonce key: absent, or the number of consumptions since the last issue.\<close>

lemma nonce_run_counter:
  assumes "\<forall>e \<in> set tr. serial_ok (event_serial e)" "serial_ok s"
  shows "(nonce_run Map.empty tr (cache_key s n) = Some 0 \<longleftrightarrow> nonce_live tr s n)
       \<and> (\<forall>v. nonce_run Map.empty tr (cache_key s n) = Some v \<longrightarrow> 0 \<le> v)"
  using assms(1)
proof (induction tr rule: rev_induct)
  case Nil
  show ?case by (simp add: nonce_live_Nil)
next
  case (snoc e tr)
  then have IH: "(nonce_run Map.empty tr (cache_key s n) = Some 0 \<longleftrightarrow> nonce_live tr s n)"
    "\<And>v. nonce_run Map.empty tr (cache_key s n) = Some v \<Longrightarrow> 0 \<le> v"
    and ok: "serial_ok (event_serial e)"
    by auto
  show ?case
  proof (cases e)
    case (GetNonce s' n')
    show ?thesis
    proof (cases "cache_key s' n' = cache_key s n")
      case True
      with ok GetNonce assms(2) have "s' = s" "n' = n"
        using cache_key_inj[of s' s n' n] by auto
      with GetNonce show ?thesis
        by (simp add: nonce_run_snoc nonce_live_snoc get_nonce_def cache_set_def)
    next
      case False
      then have "e \<noteq> GetNonce s n" using GetNonce by auto
      with False GetNonce IH show ?thesis
        by (auto simp add: nonce_run_snoc nonce_live_snoc get_nonce_def cache_set_def)
    qed
  next
    case (ValidateNonce s' n')
    show ?thesis
    proof (cases "cache_key s' n' = cache_key s n")
      case True
      with ok ValidateNonce assms(2) have "s' = s" "n' = n"
        using cache_key_inj[of s' s n' n] by auto
      with ValidateNonce IH show ?thesis
        by (auto simp add: nonce_run_snoc nonce_live_snoc validate_nonce_def cache_incr_def
            split: option.splits)
    next
      case False
      then have "e \<noteq> ValidateNonce s n" using ValidateNonce by auto
      with False ValidateNonce IH show ?thesis
        by (auto simp add: nonce_run_snoc nonce_live_snoc validate_nonce_def cache_incr_def
            split: option.splits)
    qed
  qed
qed

lemma validate_nonce_fst:
  "fst (validate_nonce s n c) \<longleftrightarrow> (\<exists>v. c (cache_key s n) = Some v \<and> v + 1 \<le> 1)"
  by (auto simp: validate_nonce_def cache_incr_def split: option.splits)

lemma validate_nonce_live:
  assumes "\<forall>e \<in> set tr. serial_ok (event_serial e)" "serial_ok s"
  shows "fst (validate_nonce s n (nonce_run Map.empty tr)) \<longleftrightarrow> nonce_live tr s n"
proof -
  from nonce_run_counter[OF assms, of n]
  have c0: "nonce_run Map.empty tr (cache_key s n) = Some 0 \<longleftrightarrow> nonce_live tr s n"
    and nonneg: "\<And>v. nonce_run Map.empty tr (cache_key s n) = Some v \<Longrightarrow> 0 \<le> v"
    by auto
  show ?thesis
  proof
    assume "fst (validate_nonce s n (nonce_run Map.empty tr))"
    then obtain v where v: "nonce_run Map.empty tr (cache_key s n) = Some v" "v + 1 \<le> 1"
      by (auto simp: validate_nonce_fst)
    with nonneg[of v] have "v = 0" by simp
    with v c0 show "nonce_live tr s n" by simp
  next
    assume "nonce_live tr s n"
    with c0 show "fst (validate_nonce s n (nonce_run Map.empty tr))"
      by (simp add: validate_nonce_fst)
  qed
qed

lemma validate_nonce_counter:
  "fst (validate_nonce s n c) \<Longrightarrow> c (cache_key s n) = Some 0 \<Longrightarrow>
   snd (validate_nonce s n c) (cache_key s n) = Some 1"
  by (simp add: validate_nonce_def cache_incr_def)

lemma nonce_live_never_issued: "GetNonce s n \<notin> set tr \<Longrightarrow> \<not> nonce_live tr s n"
  by (auto simp: nonce_live_def)

lemma nonce_live_used:
  assumes "tr = xs @ ValidateNonce s n # ys" "GetNonce s n \<notin> set ys"
  shows "\<not> nonce_live tr s n"
proof
  assume "nonce_live tr s n"
  then obtain p q where pq: "tr = p @ GetNonce s n # q" "ValidateNonce s n \<notin> set q"
    by (auto simp: nonce_live_def)
  with assms(1) have "xs @ ValidateNonce s n # ys = p @ GetNonce s n # q" by simp
  then show False
    using assms(2) pq(2)
    by (auto simp: append_eq_append_conv2 append_eq_Cons_conv Cons_eq_append_conv)
qed

text \<open>
  Claim C1. Consuming a nonce is one-shot. In every history of the nonce store that starts
  from the empty cache, \<^verbatim>\<open>validate_nonce\<close> answers true exactly when the nonce was issued
  for that CA and has not been consumed since it was issued; the counter is then exactly
  1. A nonce that was never issued is refused, and after a consumption of a nonce every
  later consumption is refused, as long as the random source does not issue the same
  value again.
\<close>

theorem validate_nonce_one_shot:
  assumes "\<forall>e \<in> set tr. serial_ok (event_serial e)" and "serial_ok s"
  shows "(fst (validate_nonce s n (nonce_run Map.empty tr)) \<longleftrightarrow>
            (\<exists>xs ys. tr = xs @ GetNonce s n # ys \<and> ValidateNonce s n \<notin> set ys))
       \<and> (fst (validate_nonce s n (nonce_run Map.empty tr)) \<longrightarrow>
            snd (validate_nonce s n (nonce_run Map.empty tr)) (cache_key s n) = Some 1)
       \<and> (GetNonce s n \<notin> set tr \<longrightarrow> \<not> fst (validate_nonce s n (nonce_run Map.empty tr)))
       \<and> ((\<exists>xs ys. tr = xs @ ValidateNonce s n # ys \<and> GetNonce s n \<notin> set ys) \<longrightarrow>
            \<not> fst (validate_nonce s n (nonce_run Map.empty tr)))"
proof -
  have live: "fst (validate_nonce s n (nonce_run Map.empty tr)) \<longleftrightarrow> nonce_live tr s n"
    using assms by (rule validate_nonce_live)
  have zero: "nonce_live tr s n \<Longrightarrow> nonce_run Map.empty tr (cache_key s n) = Some 0"
    using nonce_run_counter[OF assms, of n] by simp
  have one: "fst (validate_nonce s n (nonce_run Map.empty tr)) \<longrightarrow>
             snd (validate_nonce s n (nonce_run Map.empty tr)) (cache_key s n) = Some 1"
    using live zero validate_nonce_counter by blast
  have never: "GetNonce s n \<notin> set tr \<longrightarrow> \<not> fst (validate_nonce s n (nonce_run Map.empty tr))"
    using live nonce_live_never_issued by blast
  have used: "(\<exists>xs ys. tr = xs @ ValidateNonce s n # ys \<and> GetNonce s n \<notin> set ys) \<longrightarrow>
              \<not> fst (validate_nonce s n (nonce_run Map.empty tr))"
    using live nonce_live_used by blast
  from live one never used show ?thesis
    unfolding nonce_live_def by blast
qed

theorem validate_nonce_one_shot_witness:
  "serial_ok ''3A91''
   \<and> fst (validate_nonce ''3A91'' ''q1w2''
            (nonce_run Map.empty [GetNonce ''3A91'' ''q1w2'']))
   \<and> \<not> fst (validate_nonce ''3A91'' ''q1w2''
            (nonce_run Map.empty [GetNonce ''3A91'' ''q1w2'', ValidateNonce ''3A91'' ''q1w2'']))
   \<and> \<not> fst (validate_nonce ''3A91'' ''zzzz''
            (nonce_run Map.empty [GetNonce ''3A91'' ''q1w2'']))"
proof -
  have ok: "serial_ok ''3A91''" by (simp add: serial_ok_def)
  have ok1: "\<forall>e \<in> set [GetNonce ''3A91'' ''q1w2'']. serial_ok (event_serial e)"
    using ok by simp
  have ok2: "\<forall>e \<in> set [GetNonce ''3A91'' ''q1w2'', ValidateNonce ''3A91'' ''q1w2''].
               serial_ok (event_serial e)"
    using ok by simp
  have d1: "[GetNonce ''3A91'' ''q1w2''] = [] @ GetNonce ''3A91'' ''q1w2'' # []
            \<and> ValidateNonce ''3A91'' ''q1w2'' \<notin> set []"
    by simp
  have d2: "[GetNonce ''3A91'' ''q1w2'', ValidateNonce ''3A91'' ''q1w2'']
              = [GetNonce ''3A91'' ''q1w2''] @ ValidateNonce ''3A91'' ''q1w2'' # []
            \<and> GetNonce ''3A91'' ''q1w2'' \<notin> set []"
    by simp
  have a: "fst (validate_nonce ''3A91'' ''q1w2''
            (nonce_run Map.empty [GetNonce ''3A91'' ''q1w2'']))"
    using validate_nonce_one_shot[OF ok1 ok, of "''q1w2''"] d1 by blast
  have b: "\<not> fst (validate_nonce ''3A91'' ''q1w2''
            (nonce_run Map.empty [GetNonce ''3A91'' ''q1w2'', ValidateNonce ''3A91'' ''q1w2'']))"
    using validate_nonce_one_shot[OF ok2 ok, of "''q1w2''"] d2 by blast
  have c: "\<not> fst (validate_nonce ''3A91'' ''zzzz''
            (nonce_run Map.empty [GetNonce ''3A91'' ''q1w2'']))"
  proof -
    have ni: "GetNonce ''3A91'' ''zzzz'' \<notin> set [GetNonce ''3A91'' ''q1w2'']" by simp
    show ?thesis using validate_nonce_one_shot[OF ok1 ok, of "''zzzz''"] ni by blast
  qed
  from ok a b c show ?thesis by blast
qed

section \<open>Properties of the contact validation\<close>

lemma py_split1_no_sep: "sep \<notin> set s \<Longrightarrow> py_split1 sep s = [s]"
  by (simp add: py_split1_def)

lemma py_split1_sep:
  "sep \<in> set s \<Longrightarrow>
   py_split1 sep s = [takeWhile (\<lambda>c. c \<noteq> sep) s, tl (dropWhile (\<lambda>c. c \<noteq> sep) s)]"
  by (simp add: py_split1_def)

lemma validate_contact_unsupported:
  "\<not> startswith contact email_prefix \<Longrightarrow>
   validate_contact ve contact =
     Inl (AcmeMalformed (Some ''unsupportedContact'')
           (Some (contact @ '': Unsupported address scheme.'')))"
  by (simp add: validate_contact_def)

lemma validate_contact_quoted:
  "startswith contact email_prefix \<Longrightarrow>
   startswith (drop (length email_prefix) contact) [CHR 0x22] \<Longrightarrow>
   validate_contact ve contact =
     Inl (AcmeMalformed (Some ''invalidContact'')
           (Some ''Quoted local part in email is not allowed.''))"
  by (simp add: validate_contact_def)

lemma validate_contact_comma:
  "startswith contact email_prefix \<Longrightarrow>
   \<not> startswith (drop (length email_prefix) contact) [CHR 0x22] \<Longrightarrow>
   CHR '','' \<in> set (drop (length email_prefix) contact) \<Longrightarrow>
   validate_contact ve contact =
     Inl (AcmeMalformed (Some ''invalidContact'')
           (Some ''More than one addr-spec is not allowed.''))"
  by (simp add: validate_contact_def)

lemma validate_contact_with_at:
  assumes "startswith contact email_prefix"
    and "\<not> startswith (drop (length email_prefix) contact) [CHR 0x22]"
    and "CHR '','' \<notin> set (drop (length email_prefix) contact)"
    and "CHR ''@'' \<in> set (drop (length email_prefix) contact)"
  shows "validate_contact ve contact =
     (let addr = drop (length email_prefix) contact;
          domain = tl (dropWhile (\<lambda>c. c \<noteq> CHR ''@'') addr)
      in if CHR ''?'' \<in> set domain then
           Inl (AcmeMalformed (Some ''invalidContact'')
                 (Some (domain @ '': hfields are not allowed.'')))
         else if ve addr then Inr ()
         else Inl (AcmeMalformed (Some ''invalidContact'')
                 (Some (domain @ '': Not a valid email address.''))))"
  using assms by (simp add: validate_contact_def py_split1_sep Let_def)

lemma validate_contact_without_at:
  assumes "startswith contact email_prefix"
    and "\<not> startswith (drop (length email_prefix) contact) [CHR 0x22]"
    and "CHR '','' \<notin> set (drop (length email_prefix) contact)"
    and "CHR ''@'' \<notin> set (drop (length email_prefix) contact)"
  shows "validate_contact ve contact =
           Inl (ValueError ''not enough values to unpack (expected 2, got 1)'')"
  using assms by (simp add: validate_contact_def py_split1_no_sep Let_def)

text \<open>
  Claim C8. Contacts of another scheme are refused as \<open>unsupportedContact\<close>; quoted local
  parts, commas and a question mark in the domain are refused as \<open>invalidContact\<close>, as is
  an address with an at sign that fails the syntax check (the lemmas above). An address
  without an at sign does not reach the syntax check: unpacking the result of
  \<^verbatim>\<open>addr.split("@", 1)\<close> raises \<^verbatim>\<open>ValueError\<close>, which is no ACME exception, and the client
  receives the internal-error document instead of \<open>invalidContact\<close>.
\<close>

theorem validate_contacts_without_at_sign:
  "validate_contacts validate_email [''mailto:admin'']
     = Inl (ValueError ''not enough values to unpack (expected 2, got 1)'')
   \<and> fst (account_view validate_email (contact_update [''mailto:admin''])
            (Some ''Mr6FfdD68lzp'') example_db)
     = Inl (ValueError ''not enough values to unpack (expected 2, got 1)'')
   \<and> dispatch (catch_acme (fst (account_view validate_email (contact_update [''mailto:admin''])
            (Some ''Mr6FfdD68lzp'') example_db)))
     = AcmeResponseError ''Internal server error''"
proof -
  have c: "validate_contact validate_email ''mailto:admin''
             = Inl (ValueError ''not enough values to unpack (expected 2, got 1)'')"
    by (rule validate_contact_without_at) (simp_all add: startswith_def email_prefix_def)
  then have cs: "validate_contacts validate_email [''mailto:admin'']
             = Inl (ValueError ''not enough values to unpack (expected 2, got 1)'')"
    by simp
  have v: "fst (account_view validate_email (contact_update [''mailto:admin''])
            (Some ''Mr6FfdD68lzp'') example_db)
     = Inl (ValueError ''not enough values to unpack (expected 2, got 1)'')"
    unfolding account_view_def
    by (simp add: c contact_update_def example_db_def alice_def bob_def STATUS_DEACTIVATED_def)
  show ?thesis
    using cs v by (simp add: c dispatch_def catch_acme_def)
qed

section \<open>Properties of the request authentication\<close>

lemma post_both:
  assumes "req_content_type request = ''application/jose+json''"
    and "req_body request = Some jws"
    and "hdr_jwk (jws_combined jws) \<noteq> None" and "truthy (hdr_kid (jws_combined jws))"
  shows "post api cr requires_key process d request serial c =
           (Inr (AcmeResponseMalformed None (Some ''jwk and kid are mutually exclusive.'')), d, c)"
  using assms unfolding post_def by (simp add: Let_def)

lemma post_neither_no_ca:
  assumes "req_content_type request = ''application/jose+json''"
    and "req_body request = Some jws"
    and "hdr_jwk (jws_combined jws) = None" and "\<not> truthy (hdr_kid (jws_combined jws))"
    and "filter (\<lambda>ca. ca_usable api ca \<and> ca_serial ca = serial) (cas d) = []"
  shows "post api cr requires_key process d request serial c =
           (Inr (AcmeResponseNotFound ''The requested CA cannot be found.''), d, c)"
  using assms unfolding post_def by (simp add: Let_def)

lemma post_neither_ca:
  assumes "req_content_type request = ''application/jose+json''"
    and "req_body request = Some jws"
    and "hdr_jwk (jws_combined jws) = None" and "\<not> truthy (hdr_kid (jws_combined jws))"
    and "filter (\<lambda>ca. ca_usable api ca \<and> ca_serial ca = serial) (cas d) = [ca]"
  shows "post api cr requires_key process d request serial c =
           (Inr (AcmeResponseMalformed None (Some ''JWS contained neither key nor key ID.'')), d, c)"
  using assms unfolding post_def by (simp add: Let_def)

text \<open>
  Claim C6, as stated, fails: a request that carries neither a key nor a key identifier
  and addresses an unknown CA is answered with \<open>NotFound\<close>, since the CA is resolved before
  the key material is inspected.
\<close>

theorem post_keyless_unknown_ca_counterexample:
  "fst (post example_api example_crypto False trivial_view empty_db keyless_request ''3A91''
          Map.empty)
     = Inr (AcmeResponseNotFound ''The requested CA cannot be found.'')"
  by (simp add: post_neither_no_ca[where jws = keyless_jws] keyless_request_def keyless_jws_def
      empty_db_def)

text \<open>
  Claim C6, amended. For a request of the ACME media type whose body parses as a JWS: a
  header with both a key and a key identifier is refused as malformed before the CA is
  resolved; a header with neither is refused as malformed when the serial resolves to a
  usable CA, and answered with \<open>NotFound\<close> when no CA has the serial.
\<close>

theorem post_jwk_kid_exclusive:
  assumes "req_content_type request = ''application/jose+json''"
    and "req_body request = Some jws"
  shows "(hdr_jwk (jws_combined jws) \<noteq> None \<and> truthy (hdr_kid (jws_combined jws)) \<longrightarrow>
            post api cr requires_key process d request serial c =
              (Inr (AcmeResponseMalformed None (Some ''jwk and kid are mutually exclusive.'')),
               d, c))
       \<and> (hdr_jwk (jws_combined jws) = None \<and> \<not> truthy (hdr_kid (jws_combined jws)) \<longrightarrow>
            (\<forall>ca. filter (\<lambda>ca. ca_usable api ca \<and> ca_serial ca = serial) (cas d) = [ca] \<longrightarrow>
               post api cr requires_key process d request serial c =
                 (Inr (AcmeResponseMalformed None
                         (Some ''JWS contained neither key nor key ID.'')), d, c))
          \<and> (filter (\<lambda>ca. ca_usable api ca \<and> ca_serial ca = serial) (cas d) = [] \<longrightarrow>
               post api cr requires_key process d request serial c =
                 (Inr (AcmeResponseNotFound ''The requested CA cannot be found.''), d, c)))"
proof (intro conjI impI allI)
  assume "hdr_jwk (jws_combined jws) \<noteq> None \<and> truthy (hdr_kid (jws_combined jws))"
  then show "post api cr requires_key process d request serial c =
      (Inr (AcmeResponseMalformed None (Some ''jwk and kid are mutually exclusive.'')), d, c)"
    using post_both[OF assms] by simp
next
  fix ca
  assume "hdr_jwk (jws_combined jws) = None \<and> \<not> truthy (hdr_kid (jws_combined jws))"
    and "filter (\<lambda>ca. ca_usable api ca \<and> ca_serial ca = serial) (cas d) = [ca]"
  then show "post api cr requires_key process d request serial c =
      (Inr (AcmeResponseMalformed None (Some ''JWS contained neither key nor key ID.'')), d, c)"
    using post_neither_ca[OF assms] by simp
next
  assume "hdr_jwk (jws_combined jws) = None \<and> \<not> truthy (hdr_kid (jws_combined jws))"
    and "filter (\<lambda>ca. ca_usable api ca \<and> ca_serial ca = serial) (cas d) = []"
  then show "post api cr requires_key process d request serial c =
      (Inr (AcmeResponseNotFound ''The requested CA cannot be found.''), d, c)"
    using post_neither_no_ca[OF assms] by simp
qed

theorem post_jwk_kid_exclusive_witness:
  "post example_api example_crypto False trivial_view example_db overfull_request ''3A91''
       Map.empty
     = (Inr (AcmeResponseMalformed None (Some ''jwk and kid are mutually exclusive.'')),
        example_db, Map.empty)
   \<and> post example_api example_crypto False trivial_view example_db keyless_request ''3A91''
       Map.empty
     = (Inr (AcmeResponseMalformed None (Some ''JWS contained neither key nor key ID.'')),
        example_db, Map.empty)
   \<and> post example_api example_crypto False trivial_view empty_db keyless_request ''3A91''
       Map.empty
     = (Inr (AcmeResponseNotFound ''The requested CA cannot be found.''), empty_db, Map.empty)"
proof -
  have t1: "req_content_type overfull_request = ''application/jose+json''"
    and b1: "req_body overfull_request = Some overfull_jws"
    by (simp_all add: overfull_request_def)
  have t2: "req_content_type keyless_request = ''application/jose+json''"
    and b2: "req_body keyless_request = Some keyless_jws"
    by (simp_all add: keyless_request_def)
  have both: "hdr_jwk (jws_combined overfull_jws) \<noteq> None
              \<and> truthy (hdr_kid (jws_combined overfull_jws))"
    by (simp add: overfull_jws_def)
  have neither: "hdr_jwk (jws_combined keyless_jws) = None
                 \<and> \<not> truthy (hdr_kid (jws_combined keyless_jws))"
    by (simp add: keyless_jws_def)
  have found: "filter (\<lambda>ca. ca_usable example_api ca \<and> ca_serial ca = ''3A91'') (cas example_db)
                 = [example_ca]"
    by (simp add: example_db_def example_api_def example_ca_def)
  have missing: "filter (\<lambda>ca. ca_usable example_api ca \<and> ca_serial ca = ''3A91'') (cas empty_db)
                 = []"
    by (simp add: empty_db_def)
  show ?thesis
    using post_jwk_kid_exclusive[OF t1 b1, where api = example_api and d = example_db
            and serial = "''3A91''" and cr = example_crypto and requires_key = False
            and process = trivial_view and c = Map.empty]
          post_jwk_kid_exclusive[OF t2 b2, where api = example_api and d = example_db
            and serial = "''3A91''" and cr = example_crypto and requires_key = False
            and process = trivial_view and c = Map.empty]
          post_jwk_kid_exclusive[OF t2 b2, where api = example_api and d = empty_db
            and serial = "''3A91''" and cr = example_crypto and requires_key = False
            and process = trivial_view and c = Map.empty]
          both neither found missing
    by blast
qed

section \<open>Properties of the validation of certificate requests\<close>

lemma validate_csr_accepts:
  assumes "validate_csr ck an csr auths = Inr pem"
  shows "\<exists>names. csr_san csr = Some names \<and> set names = an ` set auths"
  using assms unfolding validate_csr_def
  by (auto simp: Let_def split: if_splits option.splits)

lemma validate_csr_mismatch:
  assumes "csr_subject csr = [] \<or> ck (csr_subject csr) = None"
    and "csr_san csr = Some names" and "set names \<noteq> an ` set auths"
  shows "\<exists>m. validate_csr ck an csr auths = Inl (AcmeBadCSR None (Some m))"
  using assms unfolding validate_csr_def
  by (auto simp: Let_def split: if_splits option.splits)

lemma validate_csr_no_san:
  assumes "csr_subject csr = [] \<or> ck (csr_subject csr) = None"
    and "csr_san csr = None"
  shows "\<exists>m. validate_csr ck an csr auths = Inl (AcmeBadCSR None (Some m))"
  using assms unfolding validate_csr_def
  by (auto simp: Let_def split: if_splits option.splits)

text \<open>
  What holds of the comparison of the names. \<^verbatim>\<open>validate_csr\<close> returns the request only
  when the request has a subject alternative name extension whose set of names equals the
  set of names of the authorizations. When the sanity check of the subject does not
  raise, a request whose set of names differs (a strict subset or a strict superset in
  particular) and a request without the extension are refused as \<open>BadCSR\<close>.
\<close>

lemma validate_csr_names_equal:
  "(\<forall>pem. validate_csr check_name auth_name csr auths = Inr pem \<longrightarrow>
      (\<exists>names. csr_san csr = Some names \<and> set names = auth_name ` set auths))
   \<and> (csr_subject csr = [] \<or> check_name (csr_subject csr) = None \<longrightarrow>
        (\<forall>names. csr_san csr = Some names \<and>
            (set names \<subset> auth_name ` set auths \<or> auth_name ` set auths \<subset> set names \<or>
             set names \<noteq> auth_name ` set auths) \<longrightarrow>
            (\<exists>m. validate_csr check_name auth_name csr auths = Inl (AcmeBadCSR None (Some m))))
        \<and> (csr_san csr = None \<longrightarrow>
            (\<exists>m. validate_csr check_name auth_name csr auths = Inl (AcmeBadCSR None (Some m)))))"
proof (intro conjI impI allI)
  fix pem assume "validate_csr check_name auth_name csr auths = Inr pem"
  then show "\<exists>names. csr_san csr = Some names \<and> set names = auth_name ` set auths"
    by (rule validate_csr_accepts)
next
  fix names
  assume ok: "csr_subject csr = [] \<or> check_name (csr_subject csr) = None"
    and "csr_san csr = Some names \<and>
         (set names \<subset> auth_name ` set auths \<or> auth_name ` set auths \<subset> set names \<or>
          set names \<noteq> auth_name ` set auths)"
  then have "csr_san csr = Some names" "set names \<noteq> auth_name ` set auths" by auto
  with ok show "\<exists>m. validate_csr check_name auth_name csr auths = Inl (AcmeBadCSR None (Some m))"
    by (rule validate_csr_mismatch)
next
  assume "csr_subject csr = [] \<or> check_name (csr_subject csr) = None" "csr_san csr = None"
  then show "\<exists>m. validate_csr check_name auth_name csr auths = Inl (AcmeBadCSR None (Some m))"
    by (rule validate_csr_no_san)
qed

lemma validate_csr_names_equal_example:
  "validate_csr accept_name auth_dns_name matching_csr [example_authorizations ! 1] = Inr ''CSR-1''
   \<and> (\<exists>m. validate_csr accept_name auth_dns_name superset_csr [example_authorizations ! 1]
            = Inl (AcmeBadCSR None (Some m)))
   \<and> (\<exists>m. validate_csr accept_name auth_dns_name sanless_csr [example_authorizations ! 1]
            = Inl (AcmeBadCSR None (Some m)))"
proof -
  have a: "validate_csr accept_name auth_dns_name matching_csr [example_authorizations ! 1]
             = Inr ''CSR-1''"
    by (simp add: validate_csr_def matching_csr_def example_authorizations_def auth_dns_name_def
        accept_name_def)
  have s1: "csr_subject superset_csr = [] \<or> accept_name (csr_subject superset_csr) = None"
    by (simp add: accept_name_def)
  have s2: "csr_san superset_csr = Some [DNSName ''b.example.com'', DNSName ''x.example.org'']
            \<and> (set [DNSName ''b.example.com'', DNSName ''x.example.org'']
                  \<subset> auth_dns_name ` set [example_authorizations ! 1]
               \<or> auth_dns_name ` set [example_authorizations ! 1]
                  \<subset> set [DNSName ''b.example.com'', DNSName ''x.example.org'']
               \<or> set [DNSName ''b.example.com'', DNSName ''x.example.org'']
                  \<noteq> auth_dns_name ` set [example_authorizations ! 1])"
    by (auto simp add: superset_csr_def example_authorizations_def auth_dns_name_def)
  have n1: "csr_subject sanless_csr = [] \<or> accept_name (csr_subject sanless_csr) = None"
    by (simp add: accept_name_def)
  have n2: "csr_san sanless_csr = None" by (simp add: sanless_csr_def)
  have b: "\<exists>m. validate_csr accept_name auth_dns_name superset_csr [example_authorizations ! 1]
            = Inl (AcmeBadCSR None (Some m))"
    using validate_csr_names_equal[where check_name = accept_name and auth_name = auth_dns_name
        and csr = superset_csr and auths = "[example_authorizations ! 1]"] s1 s2
    by blast
  have c: "\<exists>m. validate_csr accept_name auth_dns_name sanless_csr [example_authorizations ! 1]
            = Inl (AcmeBadCSR None (Some m))"
    using validate_csr_names_equal[where check_name = accept_name and auth_name = auth_dns_name
        and csr = sanless_csr and auths = "[example_authorizations ! 1]"] n1 n2
    by blast
  from a b c show ?thesis by blast
qed

section \<open>Properties of finalizing an order\<close>

lemma finalize_not_ready:
  assumes "filter (\<lambda>r. order_viewable api d r \<and> ord_account r = acc_pk account \<and>
             Some (ord_slug r) = slug) (orders d) = [order]"
    and "ord_status order \<noteq> Ready"
  shows "finalize api check_name auth_name new_slug account message slug d =
           (Inl (AcmeForbidden (Some ''orderNotReady'') (Some ''This order is not yet ready.'')), d)"
  using assms unfolding finalize_def by simp

lemma finalize_success:
  assumes "filter (\<lambda>r. order_viewable api d r \<and> ord_account r = acc_pk account \<and>
             Some (ord_slug r) = slug) (orders d) = [order]"
    and "finalize api check_name auth_name new_slug account message slug d = (Inr resp, d')"
  shows "ord_status order = Ready
       \<and> orders d' = qs_save ord_pk (order\<lparr>ord_status := Processing\<rparr>) (orders d)
       \<and> (\<exists>doc. resp = AcmeResponseOk (Order doc) \<and> doc_status doc = Processing)"
  using assms unfolding finalize_def
  by (auto simp: Let_def split: if_splits sum.splits)

lemma qs_save_member:
  assumes "x \<in> set rows" "pk x' = pk x"
  shows "x' \<in> set (qs_save pk x' rows)"
  using assms unfolding qs_save_def by (auto simp: image_iff intro!: bexI[of _ x])

text \<open>
  Claim C2. For an order that the lookup of the view finds: \<^verbatim>\<open>finalize\<close> in any status
  other than \<open>ready\<close> raises \<open>Forbidden\<close> of type \<open>orderNotReady\<close> and leaves the database as it
  was; whenever it succeeds, the order was \<open>ready\<close>, its row is now \<open>processing\<close> and the
  response is the order document with that status.
\<close>

theorem finalize_only_when_ready:
  assumes "filter (\<lambda>r. order_viewable api d r \<and> ord_account r = acc_pk account \<and>
             Some (ord_slug r) = slug) (orders d) = [order]"
  shows "(ord_status order \<noteq> Ready \<longrightarrow>
            finalize api check_name auth_name new_slug account message slug d =
              (Inl (AcmeForbidden (Some ''orderNotReady'') (Some ''This order is not yet ready.'')),
               d))
       \<and> (\<forall>resp d'.
            finalize api check_name auth_name new_slug account message slug d = (Inr resp, d') \<longrightarrow>
              ord_status order = Ready
            \<and> order\<lparr>ord_status := Processing\<rparr> \<in> set (orders d')
            \<and> orders d' = qs_save ord_pk (order\<lparr>ord_status := Processing\<rparr>) (orders d)
            \<and> (\<exists>doc. resp = AcmeResponseOk (Order doc) \<and> doc_status doc = Processing))"
proof (intro conjI impI allI)
  assume "ord_status order \<noteq> Ready"
  with assms show "finalize api check_name auth_name new_slug account message slug d =
      (Inl (AcmeForbidden (Some ''orderNotReady'') (Some ''This order is not yet ready.'')), d)"
    by (rule finalize_not_ready)
next
  fix resp d'
  assume ok: "finalize api check_name auth_name new_slug account message slug d = (Inr resp, d')"
  note s = finalize_success[OF assms ok]
  from s show "ord_status order = Ready" by simp
  from s show "orders d' = qs_save ord_pk (order\<lparr>ord_status := Processing\<rparr>) (orders d)"
    by simp
  from s show "\<exists>doc. resp = AcmeResponseOk (Order doc) \<and> doc_status doc = Processing" by simp
  have "order \<in> set (filter (\<lambda>r. order_viewable api d r \<and> ord_account r = acc_pk account \<and>
             Some (ord_slug r) = slug) (orders d))"
    using assms by simp
  then have "order \<in> set (orders d)" by simp
  then have "order\<lparr>ord_status := Processing\<rparr>
               \<in> set (qs_save ord_pk (order\<lparr>ord_status := Processing\<rparr>) (orders d))"
    by (rule qs_save_member) simp
  with s show "order\<lparr>ord_status := Processing\<rparr> \<in> set (orders d')" by simp
qed

theorem finalize_only_when_ready_witness:
  "finalize example_api accept_name auth_dns_name ''cert1'' alice matching_csr (Some ''order4'')
       example_db
     = (Inl (AcmeForbidden (Some ''orderNotReady'') (Some ''This order is not yet ready.'')),
        example_db)
   \<and> (\<exists>resp d'. finalize example_api accept_name auth_dns_name ''cert1'' alice matching_csr
          (Some ''order2'') example_db = (Inr resp, d')
        \<and> (example_orders ! 1)\<lparr>ord_status := Processing\<rparr> \<in> set (orders d'))"
proof -
  have l4: "filter (\<lambda>r. order_viewable example_api example_db r \<and> ord_account r = acc_pk alice \<and>
             Some (ord_slug r) = Some ''order4'') (orders example_db) = [example_orders ! 3]"
    by (simp add: example_api_def example_db_def example_orders_def alice_def)
  have n4: "ord_status (example_orders ! 3) \<noteq> Ready"
    by (simp add: example_orders_def)
  have l2: "filter (\<lambda>r. order_viewable example_api example_db r \<and> ord_account r = acc_pk alice \<and>
             Some (ord_slug r) = Some ''order2'') (orders example_db) = [example_orders ! 1]"
    by (simp add: example_api_def example_db_def example_orders_def alice_def)
  have a: "finalize example_api accept_name auth_dns_name ''cert1'' alice matching_csr
             (Some ''order4'') example_db
     = (Inl (AcmeForbidden (Some ''orderNotReady'') (Some ''This order is not yet ready.'')),
        example_db)"
    using finalize_only_when_ready[OF l4] n4 by blast
  have "\<exists>resp d'. finalize example_api accept_name auth_dns_name ''cert1'' alice matching_csr
          (Some ''order2'') example_db = (Inr resp, d')"
    unfolding finalize_def
    by (simp add: l2[unfolded example_api_def example_db_def, simplified] example_api_def example_db_def example_orders_def alice_def
        example_authorizations_def validate_csr_def matching_csr_def auth_dns_name_def
        accept_name_def Let_def)
  then obtain resp d' where ok: "finalize example_api accept_name auth_dns_name ''cert1'' alice
      matching_csr (Some ''order2'') example_db = (Inr resp, d')"
    by blast
  with finalize_only_when_ready[OF l2]
  have "(example_orders ! 1)\<lparr>ord_status := Processing\<rparr> \<in> set (orders d')" by blast
  with ok a show ?thesis by blast
qed




section \<open>Properties of the lookups by slug\<close>

lemma filter_empty_if: "(\<forall>r \<in> set rows. \<not> P r) \<Longrightarrow> filter P rows = []"
  by (simp add: filter_empty_conv)

lemma order_view_unknown:
  assumes "\<forall>r \<in> set (orders d). ord_slug r = slug \<longrightarrow>
             \<not> (order_viewable api d r \<and> ord_account r = acc_pk account)"
  shows "order_view api account slug d = (Inl (AcmeUnauthorized None None), d)"
proof -
  have "filter (\<lambda>r. order_viewable api d r \<and> ord_account r = acc_pk account \<and>
          ord_slug r = slug) (orders d) = []"
    using assms by (intro filter_empty_if) blast
  then show ?thesis unfolding order_view_def by simp
qed

lemma finalize_unknown:
  assumes "\<forall>r \<in> set (orders d). Some (ord_slug r) = slug \<longrightarrow>
             \<not> (order_viewable api d r \<and> ord_account r = acc_pk account)"
  shows "finalize api check_name auth_name new_slug account message slug d =
           (Inl (AcmeUnauthorized None None), d)"
proof -
  have "filter (\<lambda>r. order_viewable api d r \<and> ord_account r = acc_pk account \<and>
          Some (ord_slug r) = slug) (orders d) = []"
    using assms by (intro filter_empty_if) blast
  then show ?thesis unfolding finalize_def by simp
qed

lemma certificate_view_unknown:
  assumes "\<forall>r \<in> set (certificates d). cert_slug r = slug \<longrightarrow>
             \<not> (certificate_viewable api d r \<and> order_account_is d (cert_order r) (acc_pk account))"
  shows "certificate_view api account slug d = (Inl (AcmeUnauthorized None None), d)"
proof -
  have "filter (\<lambda>r. certificate_viewable api d r \<and>
          order_account_is d (cert_order r) (acc_pk account) \<and> cert_slug r = slug)
          (certificates d) = []"
    using assms by (intro filter_empty_if) blast
  then show ?thesis unfolding certificate_view_def by simp
qed

lemma authorization_view_unknown:
  assumes "\<forall>r \<in> set (authorizations d). auth_slug r = slug \<longrightarrow>
             \<not> (auth_viewable api d r \<and> order_account_is d (auth_order r) (acc_pk account))"
  shows "authorization_view api account slug d = (Inl (AcmeUnauthorized None None), d)"
proof -
  have "filter (\<lambda>r. auth_viewable api d r \<and>
          order_account_is d (auth_order r) (acc_pk account) \<and> auth_slug r = slug)
          (authorizations d) = []"
    using assms by (intro filter_empty_if) blast
  then show ?thesis unfolding authorization_view_def by simp
qed

lemma challenge_view_unknown:
  assumes "\<forall>r \<in> set (challenges d). chall_slug r = slug \<longrightarrow>
             \<not> (challenge_viewable api d r \<and> auth_account_is d (chall_auth r) (acc_pk account))"
  shows "challenge_view api account slug d = (Inl (AcmeUnauthorized None None), d)"
proof -
  have "filter (\<lambda>r. challenge_viewable api d r \<and>
          auth_account_is d (chall_auth r) (acc_pk account) \<and> chall_slug r = slug)
          (challenges d) = []"
    using assms by (intro filter_empty_if) blast
  then show ?thesis unfolding challenge_view_def by simp
qed

lemma unauthorized_response:
  "dispatch (catch_acme (Inl (AcmeUnauthorized None None))) = AcmeResponseUnauthorized None None"
  by (simp add: dispatch_def catch_acme_def)

text \<open>
  Claim C9. For the order, authorization, challenge and certificate resources: when no
  row with the slug of the request is both viewable and owned by the authenticated
  account, whether because no row has that slug or because the row belongs to
  another account, the view raises \<open>AcmeUnauthorized\<close> without arguments and changes
  nothing; the client receives the same \<open>Unauthorized\<close> document in both cases, and never
  \<open>NotFound\<close>.
\<close>

theorem unknown_slug_unauthorized:
  "((\<forall>r \<in> set (orders d). ord_slug r = slug \<longrightarrow>
        \<not> (order_viewable api d r \<and> ord_account r = acc_pk account)) \<longrightarrow>
      order_view api account slug d = (Inl (AcmeUnauthorized None None), d)
    \<and> dispatch (catch_acme (fst (order_view api account slug d)))
        = AcmeResponseUnauthorized None None)
   \<and> ((\<forall>r \<in> set (authorizations d). auth_slug r = slug \<longrightarrow>
        \<not> (auth_viewable api d r \<and> order_account_is d (auth_order r) (acc_pk account))) \<longrightarrow>
      authorization_view api account slug d = (Inl (AcmeUnauthorized None None), d)
    \<and> dispatch (catch_acme (fst (authorization_view api account slug d)))
        = AcmeResponseUnauthorized None None)
   \<and> ((\<forall>r \<in> set (challenges d). chall_slug r = slug \<longrightarrow>
        \<not> (challenge_viewable api d r \<and> auth_account_is d (chall_auth r) (acc_pk account))) \<longrightarrow>
      challenge_view api account slug d = (Inl (AcmeUnauthorized None None), d)
    \<and> dispatch (catch_acme (fst (challenge_view api account slug d)))
        = AcmeResponseUnauthorized None None)
   \<and> ((\<forall>r \<in> set (certificates d). cert_slug r = slug \<longrightarrow>
        \<not> (certificate_viewable api d r \<and>
           order_account_is d (cert_order r) (acc_pk account))) \<longrightarrow>
      certificate_view api account slug d = (Inl (AcmeUnauthorized None None), d)
    \<and> dispatch (catch_acme (fst (certificate_view api account slug d)))
        = AcmeResponseUnauthorized None None)"
proof (intro conjI impI)
  assume a: "\<forall>r \<in> set (orders d). ord_slug r = slug \<longrightarrow>
        \<not> (order_viewable api d r \<and> ord_account r = acc_pk account)"
  show "order_view api account slug d = (Inl (AcmeUnauthorized None None), d)"
    using a by (rule order_view_unknown)
  then show "dispatch (catch_acme (fst (order_view api account slug d)))
        = AcmeResponseUnauthorized None None"
    by (simp add: unauthorized_response)
next
  assume a: "\<forall>r \<in> set (authorizations d). auth_slug r = slug \<longrightarrow>
        \<not> (auth_viewable api d r \<and> order_account_is d (auth_order r) (acc_pk account))"
  show "authorization_view api account slug d = (Inl (AcmeUnauthorized None None), d)"
    using a by (rule authorization_view_unknown)
  then show "dispatch (catch_acme (fst (authorization_view api account slug d)))
        = AcmeResponseUnauthorized None None"
    by (simp add: unauthorized_response)
next
  assume a: "\<forall>r \<in> set (challenges d). chall_slug r = slug \<longrightarrow>
        \<not> (challenge_viewable api d r \<and> auth_account_is d (chall_auth r) (acc_pk account))"
  show "challenge_view api account slug d = (Inl (AcmeUnauthorized None None), d)"
    using a by (rule challenge_view_unknown)
  then show "dispatch (catch_acme (fst (challenge_view api account slug d)))
        = AcmeResponseUnauthorized None None"
    by (simp add: unauthorized_response)
next
  assume a: "\<forall>r \<in> set (certificates d). cert_slug r = slug \<longrightarrow>
        \<not> (certificate_viewable api d r \<and>
           order_account_is d (cert_order r) (acc_pk account))"
  show "certificate_view api account slug d = (Inl (AcmeUnauthorized None None), d)"
    using a by (rule certificate_view_unknown)
  then show "dispatch (catch_acme (fst (certificate_view api account slug d)))
        = AcmeResponseUnauthorized None None"
    by (simp add: unauthorized_response)
qed

theorem unknown_slug_unauthorized_witness:
  "order_view example_api alice ''order3'' example_db = (Inl (AcmeUnauthorized None None), example_db)
   \<and> order_view example_api alice ''no-such-order'' example_db
       = (Inl (AcmeUnauthorized None None), example_db)
   \<and> authorization_view example_api alice ''authz3'' example_db
       = (Inl (AcmeUnauthorized None None), example_db)
   \<and> authorization_view example_api alice ''no-such-authz'' example_db
       = (Inl (AcmeUnauthorized None None), example_db)
   \<and> challenge_view example_api alice ''no-such-challenge'' example_db
       = (Inl (AcmeUnauthorized None None), example_db)
   \<and> certificate_view example_api alice ''no-such-cert'' example_db
       = (Inl (AcmeUnauthorized None None), example_db)"
proof -
  have o3: "\<forall>r \<in> set (orders example_db). ord_slug r = ''order3'' \<longrightarrow>
        \<not> (order_viewable example_api example_db r \<and> ord_account r = acc_pk alice)"
    by (simp add: example_db_def example_orders_def alice_def)
  have o0: "\<forall>r \<in> set (orders example_db). ord_slug r = ''no-such-order'' \<longrightarrow>
        \<not> (order_viewable example_api example_db r \<and> ord_account r = acc_pk alice)"
    by (simp add: example_db_def example_orders_def alice_def)
  have a3: "\<forall>r \<in> set (authorizations example_db). auth_slug r = ''authz3'' \<longrightarrow>
        \<not> (auth_viewable example_api example_db r \<and>
           order_account_is example_db (auth_order r) (acc_pk alice))"
    by (simp add: example_db_def example_orders_def example_authorizations_def alice_def
        order_account_is_def)
  have a0: "\<forall>r \<in> set (authorizations example_db). auth_slug r = ''no-such-authz'' \<longrightarrow>
        \<not> (auth_viewable example_api example_db r \<and>
           order_account_is example_db (auth_order r) (acc_pk alice))"
    by (simp add: example_db_def example_authorizations_def)
  have c0: "\<forall>r \<in> set (challenges example_db). chall_slug r = ''no-such-challenge'' \<longrightarrow>
        \<not> (challenge_viewable example_api example_db r \<and>
           auth_account_is example_db (chall_auth r) (acc_pk alice))"
    by (simp add: example_db_def)
  have z0: "\<forall>r \<in> set (certificates example_db). cert_slug r = ''no-such-cert'' \<longrightarrow>
        \<not> (certificate_viewable example_api example_db r \<and>
           order_account_is example_db (cert_order r) (acc_pk alice))"
    by (simp add: example_db_def)
  note t = unknown_slug_unauthorized[where d = example_db and api = example_api
      and account = alice]
  have r1: "order_view example_api alice ''order3'' example_db
              = (Inl (AcmeUnauthorized None None), example_db)"
    using t[where slug = "''order3''"] o3 by (elim conjE) (erule impE, assumption, simp)
  have r2: "order_view example_api alice ''no-such-order'' example_db
              = (Inl (AcmeUnauthorized None None), example_db)"
    using t[where slug = "''no-such-order''"] o0 by (elim conjE) (erule impE, assumption, simp)
  have r3: "authorization_view example_api alice ''authz3'' example_db
              = (Inl (AcmeUnauthorized None None), example_db)"
    using t[where slug = "''authz3''"] a3 by (elim conjE) (erule impE, assumption, simp)
  have r4: "authorization_view example_api alice ''no-such-authz'' example_db
              = (Inl (AcmeUnauthorized None None), example_db)"
    using t[where slug = "''no-such-authz''"] a0 by (elim conjE) (erule impE, assumption, simp)
  have r5: "challenge_view example_api alice ''no-such-challenge'' example_db
              = (Inl (AcmeUnauthorized None None), example_db)"
    using t[where slug = "''no-such-challenge''"] c0
    by (elim conjE) (erule impE, assumption, simp)
  have r6: "certificate_view example_api alice ''no-such-cert'' example_db
              = (Inl (AcmeUnauthorized None None), example_db)"
    using t[where slug = "''no-such-cert''"] z0 by (elim conjE) (erule impE, assumption, simp)
  from r1 r2 r3 r4 r5 r6 show ?thesis by (intro conjI)
qed

section \<open>Properties of the deactivation of an account\<close>

lemma list_ex_status_update:
  "list_ex (\<lambda>r. ord_pk r = k \<and> ord_account r = a)
     (qs_update P (\<lambda>r. r\<lparr>ord_status := st\<rparr>) rows)
   = list_ex (\<lambda>r. ord_pk r = k \<and> ord_account r = a) rows"
  by (induction rows) (simp_all add: qs_update_def)

lemma order_account_is_update:
  "order_account_is (d\<lparr>orders := qs_update P (\<lambda>r. r\<lparr>ord_status := st\<rparr>) (orders d)\<rparr>) k a
     = order_account_is d k a"
  by (simp add: order_account_is_def list_ex_status_update)

lemma order_account_is_accounts:
  "order_account_is (d\<lparr>accounts := xs\<rparr>) k a = order_account_is d k a"
  by (simp add: order_account_is_def)

lemma account_view_deactivate:
  assumes "filter (\<lambda>a. Some (acc_slug a) = slug) (accounts d) = [account]"
    and "reg_status message = Some STATUS_DEACTIVATED"
  shows "account_view validate_email message slug d =
     (Inr (AcmeResponseOk (Account (account\<lparr>acc_status := AccountDeactivated\<rparr>))),
      d\<lparr>accounts := qs_save acc_pk (account\<lparr>acc_status := AccountDeactivated\<rparr>) (accounts d),
        orders := qs_update (\<lambda>r. ord_account r = acc_pk account \<and> ord_status r = Pending)
                    (\<lambda>r. r\<lparr>ord_status := Invalid\<rparr>) (orders d),
        authorizations :=
          qs_update (\<lambda>a. order_account_is d (auth_order a) (acc_pk account) \<and>
                          auth_status a = AuthPending)
            (\<lambda>a. a\<lparr>auth_status := AuthDeactivated\<rparr>) (authorizations d)\<rparr>)"
  using assms unfolding account_view_def
  by (simp add: Let_def order_account_is_update order_account_is_accounts)

lemma qs_update_nth:
  "i < length rows \<Longrightarrow> qs_update P f rows ! i = (if P (rows ! i) then f (rows ! i) else rows ! i)"
  by (simp add: qs_update_def)

lemma qs_update_length: "length (qs_update P f rows) = length rows"
  by (simp add: qs_update_def)

lemma qs_save_nth:
  "i < length rows \<Longrightarrow> qs_save pk x rows ! i = (if pk (rows ! i) = pk x then x else rows ! i)"
  by (simp add: qs_save_def)

lemma qs_save_length: "length (qs_save pk x rows) = length rows"
  by (simp add: qs_save_def)

text \<open>
  Claim C10. Deactivating an account changes the database in three places and nowhere
  else: the row of the account becomes \<open>deactivated\<close>; an order becomes \<open>invalid\<close> exactly
  when it belongs to the account and is \<open>pending\<close>; an authorization becomes \<open>deactivated\<close>
  exactly when its order belongs to the account and it is \<open>pending\<close>. Every other order
  and authorization, of this account or of another, and every challenge and certificate
  is the row it was.
\<close>

theorem deactivation_frame:
  assumes "filter (\<lambda>a. Some (acc_slug a) = slug) (accounts d) = [account]"
    and "reg_status message = Some STATUS_DEACTIVATED"
    and "d' = snd (account_view validate_email message slug d)"
  shows "length (orders d') = length (orders d)
       \<and> (\<forall>i < length (orders d).
            orders d' ! i =
              (if ord_account (orders d ! i) = acc_pk account \<and> ord_status (orders d ! i) = Pending
               then (orders d ! i)\<lparr>ord_status := Invalid\<rparr> else orders d ! i))
       \<and> length (authorizations d') = length (authorizations d)
       \<and> (\<forall>i < length (authorizations d).
            authorizations d' ! i =
              (if order_account_is d (auth_order (authorizations d ! i)) (acc_pk account)
                  \<and> auth_status (authorizations d ! i) = AuthPending
               then (authorizations d ! i)\<lparr>auth_status := AuthDeactivated\<rparr>
               else authorizations d ! i))
       \<and> length (accounts d') = length (accounts d)
       \<and> (\<forall>i < length (accounts d).
            accounts d' ! i =
              (if acc_pk (accounts d ! i) = acc_pk account
               then account\<lparr>acc_status := AccountDeactivated\<rparr> else accounts d ! i))
       \<and> challenges d' = challenges d \<and> certificates d' = certificates d \<and> cas d' = cas d
       \<and> tasks d' = tasks d"
proof -
  have d': "d' = d\<lparr>accounts := qs_save acc_pk (account\<lparr>acc_status := AccountDeactivated\<rparr>) (accounts d),
        orders := qs_update (\<lambda>r. ord_account r = acc_pk account \<and> ord_status r = Pending)
                    (\<lambda>r. r\<lparr>ord_status := Invalid\<rparr>) (orders d),
        authorizations :=
          qs_update (\<lambda>a. order_account_is d (auth_order a) (acc_pk account) \<and>
                          auth_status a = AuthPending)
            (\<lambda>a. a\<lparr>auth_status := AuthDeactivated\<rparr>) (authorizations d)\<rparr>"
    using account_view_deactivate[OF assms(1,2)] assms(3) by simp
  show ?thesis
    unfolding d'
    by (simp add: qs_update_nth qs_update_length qs_save_nth qs_save_length)
qed

theorem deactivation_frame_witness:
  "map ord_status (orders (snd (account_view any_email deactivation (Some ''Mr6FfdD68lzp'')
       example_db))) = [Invalid, Ready, Pending, Valid]
   \<and> map auth_status (authorizations (snd (account_view any_email deactivation
       (Some ''Mr6FfdD68lzp'') example_db)))
     = [AuthDeactivated, AuthValid, AuthPending, AuthValid]"
proof -
  define d' where "d' = snd (account_view any_email deactivation (Some ''Mr6FfdD68lzp'') example_db)"
  have l: "filter (\<lambda>a. Some (acc_slug a) = Some ''Mr6FfdD68lzp'') (accounts example_db) = [alice]"
    by (simp add: example_db_def alice_def bob_def)
  have m: "reg_status deactivation = Some STATUS_DEACTIVATED"
    by (simp add: deactivation_def STATUS_DEACTIVATED_def)
  note t = deactivation_frame[OF l m d'_def]
  have lo: "length (orders d') = 4" and la: "length (authorizations d') = 4"
    using t by (simp_all add: example_db_def example_orders_def example_authorizations_def)
  have o: "\<forall>i < 4. orders d' ! i =
              (if ord_account (example_orders ! i) = 1 \<and> ord_status (example_orders ! i) = Pending
               then (example_orders ! i)\<lparr>ord_status := Invalid\<rparr> else example_orders ! i)"
    using t by (simp add: example_db_def example_orders_def alice_def)
  have a: "\<forall>i < 4. authorizations d' ! i =
              (if order_account_is example_db (auth_order (example_authorizations ! i)) 1
                  \<and> auth_status (example_authorizations ! i) = AuthPending
               then (example_authorizations ! i)\<lparr>auth_status := AuthDeactivated\<rparr>
               else example_authorizations ! i)"
    using t by (simp add: example_db_def example_authorizations_def alice_def)
  have four: "\<And>P. (\<forall>i<4. P i) \<longleftrightarrow> P 0 \<and> P (Suc 0) \<and> P 2 \<and> P (3::nat)"
    by (auto simp: less_Suc_eq numeral_eq_Suc)
  have "map ord_status (orders d') = [Invalid, Ready, Pending, Valid]"
    using lo o unfolding four
    by (intro nth_equalityI) (auto simp: less_Suc_eq numeral_eq_Suc example_orders_def)
  moreover have "map auth_status (authorizations d')
      = [AuthDeactivated, AuthValid, AuthPending, AuthValid]"
    using la a unfolding four
    by (intro nth_equalityI)
       (auto simp: less_Suc_eq numeral_eq_Suc example_authorizations_def order_account_is_def
          example_db_def example_orders_def)
  ultimately show ?thesis unfolding d'_def by blast
qed

section \<open>Properties of the creation of an order\<close>

lemma new_order_rejects:
  assumes "((\<exists>nb. msg_not_before message = Some nb \<and> nb < now)
   \<or> (\<exists>na. msg_not_after message = Some na \<and> na > now + mv)
   \<or> (\<exists>nb na. msg_not_before message = Some nb \<and> msg_not_after message = Some na \<and> nb > na)
   \<or> msg_identifiers message = [])"
  shows "\<exists>m. new_order mv ov rand now account message d = (Inl (AcmeMalformed None (Some m)), d)"
  using assms unfolding new_order_def
  by (auto simp: Let_def split: option.splits)

lemma add_authorizations_result:
  assumes "add_authorizations rand order identifiers d = (authzs, d')"
  shows "authorizations d' = authorizations d @ authzs"
    and "orders d' = orders d"
    and "map (\<lambda>a. (auth_type a, auth_value a)) authzs = remdups identifiers"
    and "\<forall>a \<in> set authzs. auth_status a = AuthPending \<and> auth_order a = ord_pk order"
  using assms unfolding add_authorizations_def
  by (auto simp: Let_def comp_def case_prod_unfold)

lemma new_order_accepts:
  assumes "\<not> ((\<exists>nb. msg_not_before message = Some nb \<and> nb < now)
   \<or> (\<exists>na. msg_not_after message = Some na \<and> na > now + mv)
   \<or> (\<exists>nb na. msg_not_before message = Some nb \<and> msg_not_after message = Some na \<and> nb > na)
   \<or> msg_identifiers message = [])"
  shows "\<exists>doc order authzs d'.
           new_order mv ov rand now account message d = (Inr (AcmeResponseOk (OrderCreated doc)), d')
         \<and> doc_status doc = Pending
         \<and> orders d' = orders d @ [order]
         \<and> ord_status order = Pending \<and> ord_account order = acc_pk account
         \<and> authorizations d' = authorizations d @ authzs
         \<and> map (\<lambda>a. (auth_type a, auth_value a)) authzs = remdups (msg_identifiers message)
         \<and> (\<forall>a \<in> set authzs. auth_status a = AuthPending \<and> auth_order a = ord_pk order)"
proof -
  obtain order d1 where c: "create_order rand ov now account (msg_not_before message)
      (msg_not_after message) d = (order, d1)"
    by (cases "create_order rand ov now account (msg_not_before message)
      (msg_not_after message) d") 
  obtain authzs d2 where a: "add_authorizations rand order (msg_identifiers message) d1
      = (authzs, d2)"
    by (cases "add_authorizations rand order (msg_identifiers message) d1")
  from c have o: "ord_status order = Pending" "ord_account order = acc_pk account"
    "orders d1 = orders d @ [order]" "authorizations d1 = authorizations d"
    by (auto simp: create_order_def Let_def)
  note r = add_authorizations_result[OF a]
  have "new_order mv ov rand now account message d =
      (Inr (AcmeResponseOk (OrderCreated
         \<lparr>doc_status = ord_status order, doc_expires = ord_expires order,
          doc_identifiers = msg_identifiers message, doc_authorizations = map auth_slug authzs,
          doc_certificate = None, doc_not_before = msg_not_before message,
          doc_not_after = msg_not_after message, doc_location = ord_slug order\<rparr>)), d2)"
    using assms c a unfolding new_order_def
    by (auto simp: Let_def split: option.splits)
  with o r show ?thesis by auto
qed

text \<open>
  Claim C7. With the configured maximum validity (90 days when the setting is absent),
  \<^verbatim>\<open>new-order\<close> raises \<open>Malformed\<close> and writes nothing when a given not-before precedes the
  current time, when a given not-after exceeds the current time plus the maximum
  validity, when both are given and not-before is after not-after, or when there is no
  identifier. Otherwise the database gains one order in status \<open>pending\<close> of the account
  and one authorization in status \<open>pending\<close> per distinct identifier of the message, all
  of that order, and the response is the document of the new order.
\<close>

theorem new_order_validation:
  "(((\<exists>nb. msg_not_before message = Some nb \<and> nb < now)
     \<or> (\<exists>na. msg_not_after message = Some na \<and> na > now + ACME_MAX_CERT_VALIDITY setting)
     \<or> (\<exists>nb na. msg_not_before message = Some nb \<and> msg_not_after message = Some na \<and> nb > na)
     \<or> msg_identifiers message = []) \<longrightarrow>
      (\<exists>m. new_order (ACME_MAX_CERT_VALIDITY setting) order_validity rand now account message d
             = (Inl (AcmeMalformed None (Some m)), d)))
   \<and> (\<not> ((\<exists>nb. msg_not_before message = Some nb \<and> nb < now)
     \<or> (\<exists>na. msg_not_after message = Some na \<and> na > now + ACME_MAX_CERT_VALIDITY setting)
     \<or> (\<exists>nb na. msg_not_before message = Some nb \<and> msg_not_after message = Some na \<and> nb > na)
     \<or> msg_identifiers message = []) \<longrightarrow>
      (\<exists>doc order authzs d'.
          new_order (ACME_MAX_CERT_VALIDITY setting) order_validity rand now account message d
            = (Inr (AcmeResponseOk (OrderCreated doc)), d')
        \<and> doc_status doc = Pending
        \<and> orders d' = orders d @ [order]
        \<and> ord_status order = Pending \<and> ord_account order = acc_pk account
        \<and> authorizations d' = authorizations d @ authzs
        \<and> distinct (map (\<lambda>a. (auth_type a, auth_value a)) authzs)
        \<and> set (map (\<lambda>a. (auth_type a, auth_value a)) authzs) = set (msg_identifiers message)
        \<and> (\<forall>a \<in> set authzs. auth_status a = AuthPending \<and> auth_order a = ord_pk order)))
   \<and> ACME_MAX_CERT_VALIDITY None = days 90"
proof (intro conjI impI)
  assume v: "(\<exists>nb. msg_not_before message = Some nb \<and> nb < now)
     \<or> (\<exists>na. msg_not_after message = Some na \<and> na > now + ACME_MAX_CERT_VALIDITY setting)
     \<or> (\<exists>nb na. msg_not_before message = Some nb \<and> msg_not_after message = Some na \<and> nb > na)
     \<or> msg_identifiers message = []"
  then show "\<exists>m. new_order (ACME_MAX_CERT_VALIDITY setting) order_validity rand now account
      message d = (Inl (AcmeMalformed None (Some m)), d)"
    by (rule new_order_rejects)
next
  assume nv: "\<not> ((\<exists>nb. msg_not_before message = Some nb \<and> nb < now)
     \<or> (\<exists>na. msg_not_after message = Some na \<and> na > now + ACME_MAX_CERT_VALIDITY setting)
     \<or> (\<exists>nb na. msg_not_before message = Some nb \<and> msg_not_after message = Some na \<and> nb > na)
     \<or> msg_identifiers message = [])"
  from new_order_accepts[OF nv, of order_validity rand account d]
  obtain doc order authzs d' where r:
    "new_order (ACME_MAX_CERT_VALIDITY setting) order_validity rand now account message d
       = (Inr (AcmeResponseOk (OrderCreated doc)), d')"
    "doc_status doc = Pending" "orders d' = orders d @ [order]"
    "ord_status order = Pending" "ord_account order = acc_pk account"
    "authorizations d' = authorizations d @ authzs"
    "map (\<lambda>a. (auth_type a, auth_value a)) authzs = remdups (msg_identifiers message)"
    "\<forall>a \<in> set authzs. auth_status a = AuthPending \<and> auth_order a = ord_pk order"
    by blast
  from r(7) have "distinct (map (\<lambda>a. (auth_type a, auth_value a)) authzs)"
    "set (map (\<lambda>a. (auth_type a, auth_value a)) authzs) = set (msg_identifiers message)"
    by simp_all
  with r show "\<exists>doc order authzs d'.
          new_order (ACME_MAX_CERT_VALIDITY setting) order_validity rand now account message d
            = (Inr (AcmeResponseOk (OrderCreated doc)), d')
        \<and> doc_status doc = Pending
        \<and> orders d' = orders d @ [order]
        \<and> ord_status order = Pending \<and> ord_account order = acc_pk account
        \<and> authorizations d' = authorizations d @ authzs
        \<and> distinct (map (\<lambda>a. (auth_type a, auth_value a)) authzs)
        \<and> set (map (\<lambda>a. (auth_type a, auth_value a)) authzs) = set (msg_identifiers message)
        \<and> (\<forall>a \<in> set authzs. auth_status a = AuthPending \<and> auth_order a = ord_pk order)"
    by blast
next
  show "ACME_MAX_CERT_VALIDITY None = days 90" by (simp add: ACME_MAX_CERT_VALIDITY_def)
qed

theorem new_order_validation_witness:
  "(\<exists>m. new_order (ACME_MAX_CERT_VALIDITY None) (days 0) example_rand 0 alice long_new_order
          example_db = (Inl (AcmeMalformed None (Some m)), example_db))
   \<and> (\<exists>doc order authzs d'.
        new_order (ACME_MAX_CERT_VALIDITY None) (days 0) example_rand 0 alice example_new_order
          example_db = (Inr (AcmeResponseOk (OrderCreated doc)), d')
        \<and> orders d' = orders example_db @ [order] \<and> ord_status order = Pending
        \<and> authorizations d' = authorizations example_db @ authzs
        \<and> set (map (\<lambda>a. (auth_type a, auth_value a)) authzs)
            = {(''dns'', ''example.com''), (''dns'', ''www.example.com'')}
        \<and> distinct (map (\<lambda>a. (auth_type a, auth_value a)) authzs)
        \<and> (\<forall>a \<in> set authzs. auth_status a = AuthPending))"
proof -
  note t1 = new_order_validation[where message = long_new_order and now = 0 and setting = None
      and order_validity = "days 0" and rand = example_rand and account = alice
      and d = example_db]
  note t2 = new_order_validation[where message = example_new_order and now = 0
      and setting = None and order_validity = "days 0" and rand = example_rand
      and account = alice and d = example_db]
  have v: "\<exists>na. msg_not_after long_new_order = Some na \<and> na > 0 + ACME_MAX_CERT_VALIDITY None"
    by (simp add: long_new_order_def ACME_MAX_CERT_VALIDITY_def days_def)
  have nv: "\<not> ((\<exists>nb. msg_not_before example_new_order = Some nb \<and> nb < 0)
     \<or> (\<exists>na. msg_not_after example_new_order = Some na \<and> na > 0 + ACME_MAX_CERT_VALIDITY None)
     \<or> (\<exists>nb na. msg_not_before example_new_order = Some nb
           \<and> msg_not_after example_new_order = Some na \<and> nb > na)
     \<or> msg_identifiers example_new_order = [])"
    by (simp add: example_new_order_def)
  have ids: "set (msg_identifiers example_new_order)
      = {(''dns'', ''example.com''), (''dns'', ''www.example.com'')}"
    by (auto simp: example_new_order_def)
  have a: "\<exists>m. new_order (ACME_MAX_CERT_VALIDITY None) (days 0) example_rand 0 alice long_new_order
          example_db = (Inl (AcmeMalformed None (Some m)), example_db)"
    using t1 v by blast
  from t2 nv obtain doc order authzs d' where r:
    "new_order (ACME_MAX_CERT_VALIDITY None) (days 0) example_rand 0 alice example_new_order
       example_db = (Inr (AcmeResponseOk (OrderCreated doc)), d')"
    "orders d' = orders example_db @ [order]" "ord_status order = Pending"
    "authorizations d' = authorizations example_db @ authzs"
    "distinct (map (\<lambda>a. (auth_type a, auth_value a)) authzs)"
    "set (map (\<lambda>a. (auth_type a, auth_value a)) authzs) = set (msg_identifiers example_new_order)"
    "\<forall>a \<in> set authzs. auth_status a = AuthPending \<and> auth_order a = ord_pk order"
    by blast
  from r(6) ids have s: "set (map (\<lambda>a. (auth_type a, auth_value a)) authzs)
      = {(''dns'', ''example.com''), (''dns'', ''www.example.com'')}"
    by simp
  from r(7) have p: "\<forall>a \<in> set authzs. auth_status a = AuthPending" by blast
  from a r(1-5) s p show ?thesis by blast
qed

section \<open>Properties of the merge of extensions\<close>

lemma dict_get_set: "dict_get (dict_set k v d) k' = (if k' = k then Some v else dict_get d k')"
  by (simp add: dict_get_def dict_set_def update_conv')

lemma dict_get_Cons:
  "dict_get ((k', v') # xs) k = (if k = k' then Some v' else dict_get xs k)"
  by (simp add: dict_get_def)

lemma dict_get_Nil: "dict_get [] k = None"
  by (simp add: dict_get_def)

lemma is_dict_Nil: "is_dict []"
  by (simp add: is_dict_def)

lemma is_dict_set: "is_dict d \<Longrightarrow> is_dict (dict_set k v d)"
  by (simp add: is_dict_def dict_set_def distinct_update)

lemma keys_dict_set: "fst ` set (dict_set k v d) = insert k (fst ` set d)"
  by (simp add: dict_set_def dom_update)

lemma is_dict_update: "is_dict d \<Longrightarrow> is_dict (dict_update d other)"
  unfolding dict_update_def
  by (induction other arbitrary: d) (auto simp: is_dict_set)

lemma dict_get_update:
  assumes "is_dict other"
  shows "dict_get (dict_update d other) k =
           (case dict_get other k of Some v \<Rightarrow> Some v | None \<Rightarrow> dict_get d k)"
  using assms unfolding dict_update_def
proof (induction other arbitrary: d)
  case Nil
  then show ?case by (simp add: dict_get_Nil)
next
  case (Cons kv other)
  obtain k' v' where kv: "kv = (k', v')" by (cases kv)
  from Cons.prems kv have d: "is_dict other" and notin: "k' \<notin> fst ` set other"
    by (auto simp: is_dict_def)
  from notin have none: "dict_get other k' = None"
    by (simp add: dict_get_def map_of_eq_None_iff)
  show ?case
    using Cons.IH[OF d, of "dict_set k' v' d"] none
    by (auto simp: kv dict_get_set dict_get_Cons split: option.splits)
qed

lemma dict_get_map_Some:
  "dict_get (map (\<lambda>(k, e). (k, Some e)) d) k = map_option Some (dict_get d k)"
  unfolding dict_get_def by (induction d) auto

lemma is_dict_map_Some: "is_dict (map (\<lambda>(k, e). (k, Some e)) d) = is_dict d"
  by (simp add: is_dict_def comp_def case_prod_unfold)

lemma keys_map_filter:
  "fst ` set (List.map_filter (\<lambda>(k, v). map_option (Pair k) v) xs)
     = {k. \<exists>v. (k, Some v) \<in> set xs}"
  by (induction xs) (auto split: option.splits)

lemma is_dict_map_filter:
  "is_dict xs \<Longrightarrow> is_dict (List.map_filter (\<lambda>(k, v). map_option (Pair k) v) xs)"
proof (induction xs)
  case Nil
  then show ?case by (simp add: is_dict_def)
next
  case (Cons kv xs)
  obtain k v where kv: "kv = (k, v)" by (cases kv)
  from Cons.prems kv have d: "is_dict xs" and notin: "k \<notin> fst ` set xs"
    by (auto simp: is_dict_def)
  from notin have "k \<notin> fst ` set (List.map_filter (\<lambda>(k, v). map_option (Pair k) v) xs)"
    unfolding keys_map_filter by force
  with Cons.IH[OF d] show ?case
    by (cases v) (auto simp: kv is_dict_def)
qed

lemma dict_get_map_filter:
  assumes "is_dict xs"
  shows "dict_get (List.map_filter (\<lambda>(k, v). map_option (Pair k) v) xs) k =
           (case dict_get xs k of Some (Some v) \<Rightarrow> Some v | _ \<Rightarrow> None)"
  using assms
proof (induction xs)
  case Nil
  then show ?case by (simp add: dict_get_def)
next
  case (Cons kv xs)
  obtain k' v' where kv: "kv = (k', v')" by (cases kv)
  from Cons.prems kv have d: "is_dict xs" and notin: "k' \<notin> fst ` set xs"
    by (auto simp: is_dict_def)
  from notin have none: "dict_get xs k' = None"
    by (simp add: dict_get_def map_of_eq_None_iff)
  show ?case
    using Cons.IH[OF d] none
    by (cases v') (auto simp: kv dict_get_def split: option.splits)
qed

lemma dict_get_merge:
  assumes "is_dict p" "is_dict ov"
  shows "dict_get (merge_extensions p ov) k =
           (case dict_get ov k of
              Some (Some v) \<Rightarrow> Some v
            | Some None \<Rightarrow> None
            | None \<Rightarrow> dict_get p k)"
proof -
  have d: "is_dict (dict_update (map (\<lambda>(k, e). (k, Some e)) p) ov)"
    using assms(1) by (simp add: is_dict_update is_dict_map_Some)
  show ?thesis
    unfolding merge_extensions_def
    by (simp add: dict_get_map_filter[OF d] dict_get_update[OF assms(2)] dict_get_map_Some
        split: option.splits)
qed

lemma is_dict_merge:
  assumes "is_dict p"
  shows "is_dict (merge_extensions p ov)"
  unfolding merge_extensions_def
  using assms by (simp add: is_dict_map_filter is_dict_update is_dict_map_Some)

lemma dict_get_None_iff: "dict_get d k = None \<longleftrightarrow> k \<notin> fst ` set d"
  by (simp add: dict_get_def map_of_eq_None_iff)

lemma merge_idempotent:
  assumes "is_dict p" "is_dict ov"
  shows "dict_get (merge_extensions (merge_extensions p ov) ov) = dict_get (merge_extensions p ov)"
proof
  fix k
  show "dict_get (merge_extensions (merge_extensions p ov) ov) k
          = dict_get (merge_extensions p ov) k"
    by (simp add: dict_get_merge[OF is_dict_merge[OF assms(1)] assms(2)]
        dict_get_merge[OF assms] split: option.splits)
qed

lemma merge_commute:
  assumes "is_dict p" "is_dict ov" "is_dict ov2" "fst ` set ov \<inter> fst ` set ov2 = {}"
  shows "dict_get (merge_extensions (merge_extensions p ov) ov2)
       = dict_get (merge_extensions (merge_extensions p ov2) ov)"
proof
  fix k
  have "dict_get ov k = None \<or> dict_get ov2 k = None"
    using assms(4) unfolding dict_get_None_iff by blast
  then show "dict_get (merge_extensions (merge_extensions p ov) ov2) k
          = dict_get (merge_extensions (merge_extensions p ov2) ov) k"
    by (auto simp: dict_get_merge[OF is_dict_merge[OF assms(1)] assms(3)]
        dict_get_merge[OF is_dict_merge[OF assms(1)] assms(2)]
        dict_get_merge[OF assms(1,2)] dict_get_merge[OF assms(1,3)] split: option.splits)
qed

lemma is_dict_fold_set: "is_dict acc \<Longrightarrow> is_dict (fold (\<lambda>e. dict_set (f e) (g e)) es acc)"
  by (induction es arbitrary: acc) (auto simp: is_dict_set)

lemma is_dict_parse_items:
  "is_dict acc \<Longrightarrow> parse_items h items acc = Inr r \<Longrightarrow> is_dict r"
  by (induction h items acc rule: parse_items.induct) (auto simp: is_dict_set split: sum.splits)

lemma is_dict_normalize:
  assumes that: "normalize_extensions h arg = Inr r"
  shows "is_dict r"
proof (cases arg)
  case NoExtensions
  then show ?thesis using that by (simp add: normalize_extensions_def is_dict_Nil)
next
  case (ExtensionsDict items)
  with that have "parse_items h items [] = Inr r" by (simp add: normalize_extensions_def)
  with is_dict_Nil show ?thesis by (rule is_dict_parse_items)
next
  case (ExtensionsList es)
  with that have "r = fold (\<lambda>e. dict_set (ext_key e) (Some e)) es []"
    by (simp add: normalize_extensions_def)
  then show ?thesis using is_dict_fold_set[OF is_dict_Nil] by simp
qed

text \<open>
  Claim C4. For the dictionary of default extensions of the profile and the dictionary of
  overrides: a key with a value that is not \<^verbatim>\<open>None\<close> maps to that value in the result; a
  key with the value \<^verbatim>\<open>None\<close> is not a key of the result; a key that the overrides do not
  mention maps to what the profile gives. Applying the same overrides again leaves every
  lookup as it is, and two sets of overrides with disjoint keys give the same lookups in
  either order. Lookups are what Python compares when it compares dictionaries.
\<close>

theorem merge_extensions_overrides:
  assumes "is_dict (profile_extensions :: 'e dict)" and "is_dict extensions"
  shows "(\<forall>k v. dict_get extensions k = Some (Some v) \<longrightarrow>
            dict_get (merge_extensions profile_extensions extensions) k = Some v)
       \<and> (\<forall>k. dict_get extensions k = Some None \<longrightarrow>
            k \<notin> fst ` set (merge_extensions profile_extensions extensions))
       \<and> (\<forall>k. dict_get extensions k = None \<longrightarrow>
            dict_get (merge_extensions profile_extensions extensions) k
              = dict_get profile_extensions k)
       \<and> is_dict (merge_extensions profile_extensions extensions)
       \<and> dict_get (merge_extensions (merge_extensions profile_extensions extensions) extensions)
           = dict_get (merge_extensions profile_extensions extensions)
       \<and> (\<forall>other. is_dict other \<and> fst ` set extensions \<inter> fst ` set other = {} \<longrightarrow>
            dict_get (merge_extensions (merge_extensions profile_extensions extensions) other)
              = dict_get (merge_extensions (merge_extensions profile_extensions other) extensions))"
proof (intro conjI allI impI)
  fix k v assume "dict_get extensions k = Some (Some v)"
  then show "dict_get (merge_extensions profile_extensions extensions) k = Some v"
    by (simp add: dict_get_merge[OF assms])
next
  fix k assume "dict_get extensions k = Some None"
  then have "dict_get (merge_extensions profile_extensions extensions) k = None"
    by (simp add: dict_get_merge[OF assms])
  then show "k \<notin> fst ` set (merge_extensions profile_extensions extensions)"
    by (simp add: dict_get_None_iff)
next
  fix k assume "dict_get extensions k = None"
  then show "dict_get (merge_extensions profile_extensions extensions) k
      = dict_get profile_extensions k"
    by (simp add: dict_get_merge[OF assms])
next
  show "is_dict (merge_extensions profile_extensions extensions)"
    using assms(1) by (rule is_dict_merge)
next
  show "dict_get (merge_extensions (merge_extensions profile_extensions extensions) extensions)
           = dict_get (merge_extensions profile_extensions extensions)"
    using assms by (rule merge_idempotent)
next
  fix other :: "'e option dict"
  assume "is_dict other \<and> fst ` set extensions \<inter> fst ` set other = {}"
  then show "dict_get (merge_extensions (merge_extensions profile_extensions extensions) other)
      = dict_get (merge_extensions (merge_extensions profile_extensions other) extensions)"
    using merge_commute[OF assms, of other] by simp
qed

theorem merge_extensions_overrides_witness:
  "dict_get (merge_extensions example_extensions example_overrides) ''basic_constraints''
     = Some (BasicConstraints True)
   \<and> ''ocsp_no_check'' \<notin> fst ` set (merge_extensions example_extensions example_overrides)
   \<and> dict_get (merge_extensions example_extensions example_overrides) ''issuer_alternative_name''
     = Some (IssuerAlternativeName [''https://ca.example.com''])
   \<and> dict_get (merge_extensions (merge_extensions example_extensions example_overrides)
        example_overrides)
     = dict_get (merge_extensions example_extensions example_overrides)
   \<and> dict_get (merge_extensions (merge_extensions example_extensions example_overrides)
        other_overrides)
     = dict_get (merge_extensions (merge_extensions example_extensions other_overrides)
        example_overrides)"
proof -
  have p: "is_dict example_extensions" by (simp add: is_dict_def example_extensions_def)
  have e: "is_dict example_overrides" by (simp add: is_dict_def example_overrides_def)
  have o: "is_dict other_overrides \<and> fst ` set example_overrides \<inter> fst ` set other_overrides = {}"
    by (simp add: is_dict_def example_overrides_def other_overrides_def)
  have g1: "dict_get example_overrides ''basic_constraints'' = Some (Some (BasicConstraints True))"
    by (simp add: dict_get_def example_overrides_def)
  have g2: "dict_get example_overrides ''ocsp_no_check'' = Some None"
    by (simp add: dict_get_def example_overrides_def)
  have g3: "dict_get example_overrides ''issuer_alternative_name'' = None"
    by (simp add: dict_get_def example_overrides_def)
  have g4: "dict_get example_extensions ''issuer_alternative_name''
              = Some (IssuerAlternativeName [''https://ca.example.com''])"
    by (simp add: dict_get_def example_extensions_def)
  note t = merge_extensions_overrides[OF p e]
  from t g1 have r1: "dict_get (merge_extensions example_extensions example_overrides)
      ''basic_constraints'' = Some (BasicConstraints True)" by blast
  from t g2 have r2: "''ocsp_no_check''
      \<notin> fst ` set (merge_extensions example_extensions example_overrides)" by blast
  from t g3 have "dict_get (merge_extensions example_extensions example_overrides)
      ''issuer_alternative_name'' = dict_get example_extensions ''issuer_alternative_name''"
    by blast
  with g4 have r3: "dict_get (merge_extensions example_extensions example_overrides)
      ''issuer_alternative_name'' = Some (IssuerAlternativeName [''https://ca.example.com''])"
    by simp
  from t have r4: "dict_get (merge_extensions (merge_extensions example_extensions
      example_overrides) example_overrides)
     = dict_get (merge_extensions example_extensions example_overrides)" by blast
  from t o have r5: "dict_get (merge_extensions (merge_extensions example_extensions
      example_overrides) other_overrides)
     = dict_get (merge_extensions (merge_extensions example_extensions other_overrides)
        example_overrides)" by blast
  from r1 r2 r3 r4 r5 show ?thesis by (intro conjI)
qed

section \<open>Properties of the identifier test of create_cert\<close>

lemma names_an_identifier_no_args:
  "\<not> has_cn subj \<Longrightarrow> dict_get extensions ''subject_alternative_name'' = None \<Longrightarrow>
   names_an_identifier subj extensions
     = Inl (ValueError ''Must name at least a CN or a subjectAlternativeName.'')"
  by (simp add: names_an_identifier_def)

text \<open>
  Claim C5. The test before the signal reads the arguments \<^verbatim>\<open>subject\<close> and \<^verbatim>\<open>extensions\<close> of
  \<^verbatim>\<open>create_cert\<close>, not the subject and the extensions of the certificate. A profile whose
  default subject has a common name, and a profile whose default extensions hold a
  subject alternative name, both called without a subject and without extensions, are
  refused with the error that the certificate names no identifier, although the subject
  and the extensions of the certificate name one.
\<close>

theorem create_cert_ignores_profile_names:
  "create_cert example_helpers cn_profile example_signing_ca default_args
     = Inl (ValueError ''Must name at least a CN or a subjectAlternativeName.'')
   \<and> has_cn (dict_update (prof_subject cn_profile) [])
   \<and> create_cert example_helpers san_profile example_signing_ca default_args
     = Inl (ValueError ''Must name at least a CN or a subjectAlternativeName.'')
   \<and> dict_get (merge_extensions (prof_extensions san_profile) []) ''subject_alternative_name''
     = Some (SubjectAlternativeName [DNSName ''example.com''])"
proof -
  have n: "normalize_extensions example_helpers (arg_extensions default_args) = Inr []"
    by (simp add: normalize_extensions_def default_args_def)
  have a: "create_cert example_helpers cn_profile example_signing_ca default_args
     = Inl (ValueError ''Must name at least a CN or a subjectAlternativeName.'')"
    unfolding create_cert_def n
    by (simp add: and_then_def Let_def default_args_def cn_profile_def example_signing_ca_def
        example_helpers_def merge_extensions_def dict_update_def dict_setdefault_def dict_get_def
        dict_set_def update_from_ca_def update_san_from_cn_def has_cn_def
        names_an_identifier_def)
  have b: "has_cn (dict_update (prof_subject cn_profile) [])"
    by (simp add: has_cn_def dict_update_def cn_profile_def dict_get_def)
  have c: "create_cert example_helpers san_profile example_signing_ca default_args
     = Inl (ValueError ''Must name at least a CN or a subjectAlternativeName.'')"
    unfolding create_cert_def n
    by (simp add: and_then_def Let_def default_args_def san_profile_def example_signing_ca_def
        example_helpers_def merge_extensions_def dict_update_def dict_setdefault_def dict_get_def
        dict_set_def update_from_ca_def update_san_from_cn_def has_cn_def
        names_an_identifier_def)
  have d: "dict_get (merge_extensions (prof_extensions san_profile) [])
      ''subject_alternative_name'' = Some (SubjectAlternativeName [DNSName ''example.com''])"
    by (simp add: merge_extensions_def dict_update_def dict_get_def san_profile_def)
  from a b c d show ?thesis by (intro conjI)
qed

end
